theory Spec2Isabelle
  imports Main
begin

section \<open>JavaScript values\<close>

text \<open>
  The values that cross the boundaries of the service and of the controller: request
  bodies, response bodies, the status object. An object literal is a property list in
  the order of the source; reading a property that the object does not have gives
  \<open>undefined\<close>.
\<close>

datatype jsval =
    JUndefined
  | JNull
  | JBool bool
  | JNum int
  | JStr string
  | JArr "jsval list"
  | JObj "(string \<times> jsval) list"

fun js_truthy :: "jsval \<Rightarrow> bool" where
  "js_truthy JUndefined = False"
| "js_truthy JNull = False"
| "js_truthy (JBool b) = b"
| "js_truthy (JNum n) = (n \<noteq> 0)"
| "js_truthy (JStr s) = (s \<noteq> [])"
| "js_truthy (JArr xs) = True"
| "js_truthy (JObj ps) = True"

text \<open>\<open>a || b\<close>: the left operand when it is truthy, the right operand otherwise.\<close>

definition js_or :: "jsval \<Rightarrow> jsval \<Rightarrow> jsval" where
  "js_or a b = (if js_truthy a then a else b)"

definition js_get :: "(string \<times> jsval) list \<Rightarrow> string \<Rightarrow> jsval" where
  "js_get obj k = (case map_of obj k of None \<Rightarrow> JUndefined | Some v \<Rightarrow> v)"

subsection \<open>Strings\<close>

text \<open>
  A string of the model is the UTF-8 encoding of the string of the program: a code
  point below \<open>0x80\<close> is one byte, and \<open>utf8\<close> gives the bytes of any code point, so
  U+00A0 is the two bytes \<open>C2 A0\<close> and U+3000 the three bytes \<open>E3 80 80\<close>.
\<close>

definition utf8 :: "int \<Rightarrow> int list" where
  "utf8 c =
     (if c < 0x80 then [c]
      else if c < 0x800 then [0xC0 + c div 64, 0x80 + c mod 64]
      else if c < 0x10000 then [0xE0 + c div 4096, 0x80 + c div 64 mod 64, 0x80 + c mod 64]
      else [0xF0 + c div 262144, 0x80 + c div 4096 mod 64, 0x80 + c div 64 mod 64, 0x80 + c mod 64])"

definition encode :: "int list \<Rightarrow> string" where
  "encode cs = concat (map (\<lambda>c. map char_of (utf8 c)) cs)"

text \<open>
  Reading a string back, one code point after the other: a lead byte with the
  continuation bytes it announces is one sequence; any other byte is a sequence of
  its own and stands for the code point of its own number.
\<close>

definition byte :: "char \<Rightarrow> int" where
  "byte c = of_char c"

definition continuation :: "char \<Rightarrow> bool" where
  "continuation c = (0x80 \<le> byte c \<and> byte c < 0xC0)"

definition sequence_length :: "char \<Rightarrow> nat" where
  "sequence_length c =
     (if 0xC0 \<le> byte c \<and> byte c < 0xE0 then 2
      else if 0xE0 \<le> byte c \<and> byte c < 0xF0 then 3
      else if 0xF0 \<le> byte c \<and> byte c < 0xF8 then 4
      else 1)"

definition first_sequence :: "char \<Rightarrow> string \<Rightarrow> string" where
  "first_sequence c cs =
     (let n = sequence_length c
      in if n - 1 \<le> length cs \<and> list_all continuation (take (n - 1) cs) then c # take (n - 1) cs else [c])"

fun code_point :: "string \<Rightarrow> int" where
  "code_point [c1, c2] = (byte c1 - 0xC0) * 64 + (byte c2 - 0x80)"
| "code_point [c1, c2, c3] = (byte c1 - 0xE0) * 4096 + (byte c2 - 0x80) * 64 + (byte c3 - 0x80)"
| "code_point [c1, c2, c3, c4] =
     (byte c1 - 0xF0) * 262144 + (byte c2 - 0x80) * 4096 + (byte c3 - 0x80) * 64 + (byte c4 - 0x80)"
| "code_point cs = (case cs of [] \<Rightarrow> 0 | c # r \<Rightarrow> byte c)"

function sequences :: "string \<Rightarrow> string list" where
  "sequences [] = []"
| "sequences (c # cs) = first_sequence c cs # sequences (drop (length (first_sequence c cs) - 1) cs)"
  by pat_completeness auto
termination
  by (relation "measure length") auto

text \<open>
  \<open>String.prototype.trim\<close> removes, at both ends, the code points that are white space
  or line terminators: TAB, LF, VT, FF, CR, SPACE, U+00A0, U+1680, U+2000 to U+200A,
  U+2028, U+2029, U+202F, U+205F, U+3000 and U+FEFF.
\<close>

definition js_whitespace :: "int \<Rightarrow> bool" where
  "js_whitespace c =
     (c \<in> set [0x09, 0x0A, 0x0B, 0x0C, 0x0D, 0x20, 0xA0, 0x1680,
                0x2000, 0x2001, 0x2002, 0x2003, 0x2004, 0x2005, 0x2006, 0x2007, 0x2008, 0x2009, 0x200A,
                0x2028, 0x2029, 0x202F, 0x205F, 0x3000, 0xFEFF])"

definition trim :: "string \<Rightarrow> string" where
  "trim s =
     concat (rev (dropWhile (\<lambda>sq. js_whitespace (code_point sq))
       (rev (dropWhile (\<lambda>sq. js_whitespace (code_point sq)) (sequences s)))))"

subsection \<open>Errors\<close>

text \<open>
  A thrown error with the three properties that decide what the service does:
  \<open>message\<close>, and the \<open>status\<close> and \<open>code\<close> that the provider's client library sets on
  an API error (\<open>None\<close> is \<open>undefined\<close>). The properties \<open>type\<close> and \<open>stack\<close> are only
  written to the log. An error is never copied or changed by the program, so the
  value stands for the object.
\<close>

record js_error =
  message :: string
  status :: "int option"
  code :: "string option"

definition new_Error :: "string \<Rightarrow> js_error" where
  "new_Error msg = \<lparr> message = msg, status = None, code = None \<rparr>"

section \<open>Configuration: the environment and the service object\<close>

record env =
  OPENAI_API_KEY :: "string option"
  GEMINI_API_KEY :: "string option"

text \<open>An environment variable in a condition: unset and the empty string are falsy.\<close>

definition truthy :: "string option \<Rightarrow> bool" where
  "truthy v = (case v of None \<Rightarrow> False | Some s \<Rightarrow> s \<noteq> [])"

text \<open>
  The clients held by the service; \<open>None\<close> is \<open>null\<close>. A client is identified by the
  key it was built with, the model handle by the name of the model.
\<close>

record AIService =
  openai :: "string option"
  gemini :: "string option"
  geminiModel :: "string option"

section \<open>Documents of the database\<close>

text \<open>
  A role document and a user document with the fields that the controller reads. The
  \<open>role\<close> of a user is the id of its role or, once populated, the role as an object;
  dates are in milliseconds.
\<close>

record role_doc =
  role_id :: string
  role_name :: string
  role_description :: string

record user_doc =
  user_id :: string
  user_name :: string
  user_email :: string
  user_role :: jsval
  user_status :: string
  user_bio :: string
  user_createdAt :: int
  user_updatedAt :: int

definition getPublicProfile :: "user_doc \<Rightarrow> jsval" where
  "getPublicProfile u =
     JObj [(''id'', JStr (user_id u)),
           (''name'', JStr (user_name u)),
           (''role'', user_role u),
           (''email'', JStr (user_email u)),
           (''status'', JStr (user_status u)),
           (''bio'', JStr (user_bio u)),
           (''createdAt'', JNum (user_createdAt u)),
           (''updatedAt'', JNum (user_updatedAt u))]"

section \<open>Effects\<close>

datatype level = Info | Warn | Err

text \<open>
  The observable effects, in the order in which they happen. The logger is an external
  collaborator whose calls return nothing; a call is recorded by its level. A provider
  call is recorded with the prompt that was sent, a wait (\<open>this.sleep(ms)\<close>) with the
  delay asked for in milliseconds, a call of the database layer with its arguments.
\<close>

datatype event =
    Log level
  | OpenAICall string
  | GeminiCall string
  | Sleep nat
  | UserFindOne string
  | RoleFindById jsval
  | UserCreate "(string \<times> jsval) list"
  | UserPopulate string
  | UserFindByIdAndUpdate string "(string \<times> jsval) list"
  | UserSave user_doc

definition constructor :: "env \<Rightarrow> event list \<Rightarrow> AIService \<times> event list" where
  "constructor e tr =
     (let (oa, tr1) =
            (if truthy (OPENAI_API_KEY e) then (OPENAI_API_KEY e, tr)
             else (None, tr @ [Log Warn]));
          (g, gm, tr2) =
            (if truthy (GEMINI_API_KEY e) \<and> GEMINI_API_KEY e \<noteq> Some ''your_gemini_api_key_here''
             then (GEMINI_API_KEY e, Some ''gemini-2.5-flash'', tr1)
             else (None, None, tr1 @ [Log Warn]))
      in (\<lparr> openai = oa, gemini = g, geminiModel = gm \<rparr>, tr2))"

section \<open>getServiceStatus\<close>

definition openaiConfigured :: "env \<Rightarrow> AIService \<Rightarrow> bool" where
  "openaiConfigured e svc = (truthy (OPENAI_API_KEY e) \<and> openai svc \<noteq> None)"

definition geminiConfigured :: "env \<Rightarrow> AIService \<Rightarrow> bool" where
  "geminiConfigured e svc =
     (truthy (GEMINI_API_KEY e) \<and> GEMINI_API_KEY e \<noteq> Some ''your_gemini_api_key_here''
      \<and> geminiModel svc \<noteq> None)"

definition getServiceStatus :: "env \<Rightarrow> AIService \<Rightarrow> (string \<times> jsval) list" where
  "getServiceStatus e svc =
     [(''openai'', JBool (openaiConfigured e svc)),
      (''gemini'', JBool (geminiConfigured e svc)),
      (''hasAnyService'', JBool (openaiConfigured e svc \<or> geminiConfigured e svc)),
      (''fallback'', JBool (geminiConfigured e svc))]"

section \<open>The provider clients\<close>

text \<open>
  The two client libraries are external: what a call returns is not decided by the
  program. The model takes their behaviour as two functions of the number of calls
  already made to that provider and of the prompt sent. A chat completion is the list
  of its choices, each one the \<open>message.content\<close> of the choice (\<open>None\<close> is \<open>null\<close>).
  Gemini's outcome is that of \<open>generateContent\<close> followed by \<open>response.text()\<close>.
\<close>

type_synonym completion = "string option list"

record providers =
  openai_create :: "nat \<Rightarrow> string \<Rightarrow> js_error + completion"
  gemini_generateContent :: "nat \<Rightarrow> string \<Rightarrow> js_error + string"

fun is_OpenAICall :: "event \<Rightarrow> bool" where
  "is_OpenAICall (OpenAICall p) = True"
| "is_OpenAICall e = False"

fun is_GeminiCall :: "event \<Rightarrow> bool" where
  "is_GeminiCall (GeminiCall p) = True"
| "is_GeminiCall e = False"

fun is_Sleep :: "event \<Rightarrow> bool" where
  "is_Sleep (Sleep ms) = True"
| "is_Sleep e = False"

fun is_Log :: "event \<Rightarrow> bool" where
  "is_Log (Log l) = True"
| "is_Log e = False"

subsection \<open>Projections of a trace\<close>

text \<open>The calls of the database layer in a trace.\<close>

definition db_events :: "event list \<Rightarrow> event list" where
  "db_events tr =
     filter (\<lambda>ev. \<not> is_Log ev \<and> \<not> is_OpenAICall ev \<and> \<not> is_GeminiCall ev \<and> \<not> is_Sleep ev) tr"

text \<open>
  Every event of a trace but the log records; in a trace of the service these are the
  provider calls and the waits.
\<close>

definition calls :: "event list \<Rightarrow> event list" where
  "calls tr = filter (\<lambda>ev. \<not> is_Log ev) tr"

section \<open>generateBioWithOpenAI\<close>

definition openai_prompt :: "string \<Rightarrow> string \<Rightarrow> string" where
  "openai_prompt name role =
     ''Generate a comprehensive, professional bio (100-200 words) for a person named '' @ name
     @ '' who works as a '' @ role
     @ ''. The bio should be engaging, professional, and highlight their expertise, experience, and passion for their field. Include details about their skills, approach to work, and commitment to excellence. Do not include any personal information beyond what's provided.''"

text \<open>
  \<open>completion.choices[0].message.content.trim()\<close>: a completion without choices or
  with a \<open>null\<close> content raises a \<open>TypeError\<close> inside the \<open>try\<close> block. The \<open>catch\<close>
  block logs and throws the error it caught.
\<close>

definition generateBioWithOpenAI ::
  "providers \<Rightarrow> AIService \<Rightarrow> string \<Rightarrow> string \<Rightarrow> event list \<Rightarrow> (js_error + string) \<times> event list" where
  "generateBioWithOpenAI P svc name role tr =
     (if openai svc = None
      then (Inl (new_Error ''OpenAI client not initialized''), tr @ [Log Err])
      else
        let prompt = openai_prompt name role;
            tr1 = tr @ [OpenAICall prompt]
        in case openai_create P (length (filter is_OpenAICall tr)) prompt of
             Inl error \<Rightarrow> (Inl error, tr1 @ [Log Err])
           | Inr [] \<Rightarrow>
               (Inl (new_Error ''Cannot read properties of undefined (reading 'message')''),
                tr1 @ [Log Err])
           | Inr (None # cs) \<Rightarrow>
               (Inl (new_Error ''Cannot read properties of null (reading 'trim')''),
                tr1 @ [Log Err])
           | Inr (Some content # cs) \<Rightarrow> (Inr (trim content), tr1 @ [Log Info]))"

section \<open>generateBioWithGemini\<close>

definition gemini_prompt :: "string \<Rightarrow> string \<Rightarrow> string" where
  "gemini_prompt name role =
     ''Generate a professional bio for '' @ name @ '' who is a '' @ role @ ''. '' @ [CHR 0x0A]
     @ ''      '' @ [CHR 0x0A]
     @ ''      Requirements:'' @ [CHR 0x0A]
     @ ''      - Write in third person'' @ [CHR 0x0A]
     @ ''      - Length: 100-200 words'' @ [CHR 0x0A]
     @ ''      - Professional tone'' @ [CHR 0x0A]
     @ ''      - Include expertise, experience, and key qualities'' @ [CHR 0x0A]
     @ ''      - Focus on professional achievements and skills'' @ [CHR 0x0A]
     @ ''      - Make it engaging and well-structured'' @ [CHR 0x0A]
     @ ''      '' @ [CHR 0x0A]
     @ ''      Do not include any formatting, just return the bio text.''"

definition generateBioWithGemini ::
  "providers \<Rightarrow> AIService \<Rightarrow> string \<Rightarrow> string \<Rightarrow> event list \<Rightarrow> (js_error + string) \<times> event list" where
  "generateBioWithGemini P svc name role tr =
     (if geminiModel svc = None
      then (Inl (new_Error ''Gemini API is not configured''), tr)
      else
        let prompt = gemini_prompt name role;
            tr1 = tr @ [GeminiCall prompt]
        in case gemini_generateContent P (length (filter is_GeminiCall tr)) prompt of
             Inl error \<Rightarrow> (Inl error, tr1 @ [Log Err])
           | Inr text \<Rightarrow> (Inr (trim text), tr1 @ [Log Info]))"

section \<open>generateBioWithRetry\<close>

text \<open>
  The \<open>for\<close> loop of \<open>generateBioWithRetry\<close>, entered at \<open>attempt\<close> with the
  \<open>lastError\<close> so far (\<open>None\<close> is \<open>undefined\<close>, its value before the first failure).
  What the function throws is \<open>lastError\<close>, so the failure is a \<open>js_error option\<close>.
  \<open>maxRetries\<close> and \<open>baseDelay\<close> are natural numbers, as are the defaults 3 and 1000, the
  only values the program passes; the delay \<open>baseDelay * Math.pow(2, attempt - 1)\<close> is
  then the natural number \<open>baseDelay * 2 ^ (attempt - 1)\<close> as long as it is below
  \<open>2 ^ 53\<close>.
\<close>

definition is_auth_error :: "js_error \<Rightarrow> bool" where
  "is_auth_error error =
     (status error = Some 401 \<or> status error = Some 403 \<or> code error = Some ''invalid_api_key'')"

function retry_loop ::
  "providers \<Rightarrow> AIService \<Rightarrow> string \<Rightarrow> string \<Rightarrow> nat \<Rightarrow> nat \<Rightarrow> nat \<Rightarrow> js_error option
     \<Rightarrow> event list \<Rightarrow> (js_error option + string) \<times> event list" where
  "retry_loop P svc name role maxRetries baseDelay attempt lastError tr =
     (if attempt \<le> maxRetries then
        (case generateBioWithOpenAI P svc name role (tr @ [Log Info]) of
           (Inr bio, tr1) \<Rightarrow> (Inr bio, tr1)
         | (Inl error, tr1) \<Rightarrow>
             if is_auth_error error
             then (Inl (Some error), tr1 @ [Log Err, Log Err])
             else if attempt < maxRetries
             then retry_loop P svc name role maxRetries baseDelay (attempt + 1) (Some error)
                    (tr1 @ [Log Err, Log Info, Sleep (baseDelay * 2 ^ (attempt - 1))])
             else retry_loop P svc name role maxRetries baseDelay (attempt + 1) (Some error)
                    (tr1 @ [Log Err]))
      else (Inl lastError, tr @ [Log Err]))"
  by pat_completeness auto
termination
  by (relation "measure (\<lambda>(P, svc, name, role, maxRetries, baseDelay, attempt, lastError, tr).
        Suc maxRetries - attempt)") auto

definition generateBioWithRetry ::
  "providers \<Rightarrow> AIService \<Rightarrow> string \<Rightarrow> string \<Rightarrow> nat \<Rightarrow> nat \<Rightarrow> event list
     \<Rightarrow> (js_error option + string) \<times> event list" where
  "generateBioWithRetry P svc name role maxRetries baseDelay tr =
     retry_loop P svc name role maxRetries baseDelay 1 None tr"

section \<open>generateBio\<close>

text \<open>
  \<open>generateBio\<close> calls \<open>generateBioWithRetry(name, role)\<close> with the default parameters
  \<open>maxRetries = 3\<close> and \<open>baseDelay = 1000\<close>. The \<open>catch\<close> block reads \<open>error.message\<close>
  first, which raises a \<open>TypeError\<close> when the thrown value is \<open>undefined\<close>.
\<close>

definition generateBio ::
  "env \<Rightarrow> providers \<Rightarrow> AIService \<Rightarrow> string \<Rightarrow> string \<Rightarrow> event list \<Rightarrow> (js_error + string) \<times> event list" where
  "generateBio e P svc name role tr =
     (if truthy (OPENAI_API_KEY e) \<and> openai svc \<noteq> None then
        (case generateBioWithRetry P svc name role 3 1000 (tr @ [Log Info]) of
           (Inr bio, tr1) \<Rightarrow> (Inr bio, tr1)
         | (Inl None, tr1) \<Rightarrow>
             (Inl (new_Error ''Cannot read properties of undefined (reading 'message')''), tr1)
         | (Inl (Some error), tr1) \<Rightarrow>
             if geminiModel svc \<noteq> None then
               (case generateBioWithGemini P svc name role (tr1 @ [Log Warn, Log Info]) of
                  (Inr bio, tr2) \<Rightarrow> (Inr bio, tr2)
                | (Inl geminiError, tr2) \<Rightarrow>
                    (Inl (new_Error (''Bio generation failed: OpenAI ('' @ message error
                            @ '') and Gemini ('' @ message geminiError @ '') both failed'')),
                     tr2 @ [Log Err]))
             else (Inl error, tr1 @ [Log Warn, Log Err]))
      else if geminiModel svc \<noteq> None then
        generateBioWithGemini P svc name role (tr @ [Log Info])
      else
        (Inl (new_Error ''No AI service is configured. Please set either OPENAI_API_KEY or GEMINI_API_KEY environment variable.''),
         tr @ [Log Err]))"

section \<open>The controller\<close>

text \<open>
  A handler ends by sending a response (\<open>res.status(c).json(body)\<close>) or by passing an
  error on (\<open>next(error)\<close>).
\<close>

datatype outcome = Respond nat jsval | Next js_error

text \<open>
  The database layer is external: a query may return a document, return \<open>null\<close>
  (\<open>None\<close>) or throw. The model takes the behaviour of the calls the two handlers make
  as functions of their arguments; a handler makes each call at most once.
  \<open>User_findOne\<close> is given the normalised email the query is built from.
\<close>

record db =
  User_findOne :: "string \<Rightarrow> js_error + user_doc option"
  Role_findById :: "jsval \<Rightarrow> js_error + role_doc option"
  User_create :: "(string \<times> jsval) list \<Rightarrow> js_error + user_doc"
  populate :: "user_doc \<Rightarrow> js_error + user_doc"
  User_findByIdAndUpdate :: "string \<Rightarrow> (string \<times> jsval) list \<Rightarrow> js_error + user_doc option"
  save :: "user_doc \<Rightarrow> js_error + unit"

subsection \<open>Strings and objects\<close>

text \<open>\<open>toLowerCase\<close> on the letters of the ASCII range.\<close>

definition toLowerCase :: "string \<Rightarrow> string" where
  "toLowerCase s =
     map (\<lambda>c. if 65 \<le> (of_char c :: nat) \<and> (of_char c :: nat) \<le> 90
               then char_of ((of_char c :: nat) + 32) else c) s"

text \<open>A string, or \<open>undefined\<close>, in a template literal or as an argument.\<close>

definition js_string :: "string option \<Rightarrow> string" where
  "js_string v = (case v of None \<Rightarrow> ''undefined'' | Some s \<Rightarrow> s)"

definition js_value :: "string option \<Rightarrow> jsval" where
  "js_value v = (case v of None \<Rightarrow> JUndefined | Some s \<Rightarrow> JStr s)"

text \<open>\<open>delete obj.k\<close>, and \<open>{...obj, k: v}\<close>: an existing key keeps its place.\<close>

definition js_delete :: "(string \<times> jsval) list \<Rightarrow> string \<Rightarrow> (string \<times> jsval) list" where
  "js_delete obj k = filter (\<lambda>kv. fst kv \<noteq> k) obj"

definition js_set :: "(string \<times> jsval) list \<Rightarrow> string \<Rightarrow> jsval \<Rightarrow> (string \<times> jsval) list" where
  "js_set obj k v =
     (if k \<in> set (map fst obj) then map (\<lambda>kv. if fst kv = k then (k, v) else kv) obj
      else obj @ [(k, v)])"

subsection \<open>The email pattern of createUser\<close>

definition alnum :: "char \<Rightarrow> bool" where
  "alnum c =
     (let n = (of_char c :: nat)
      in (48 \<le> n \<and> n \<le> 57) \<or> (65 \<le> n \<and> n \<le> 90) \<or> (97 \<le> n \<and> n \<le> 122))"

definition local_char :: "char \<Rightarrow> bool" where
  "local_char c = (alnum c \<or> c \<in> set ''.!#$%&'*+/=?^_`{|}~-'')"

text \<open>
  One label of the domain: a letter or digit, then optionally up to 61 letters,
  digits or hyphens followed by a letter or digit.
\<close>

definition domain_label :: "string \<Rightarrow> bool" where
  "domain_label l =
     (l \<noteq> [] \<and> length l \<le> 63 \<and> alnum (hd l) \<and> alnum (last l)
      \<and> list_all (\<lambda>c. alnum c \<or> c = CHR ''-'') l)"

fun split_on :: "char \<Rightarrow> string \<Rightarrow> string list" where
  "split_on d [] = [[]]"
| "split_on d (c # cs) =
     (if c = d then [] # split_on d cs
      else (case split_on d cs of [] \<Rightarrow> [[c]] | w # ws \<Rightarrow> (c # w) # ws))"

definition emailRegex_test :: "string \<Rightarrow> bool" where
  "emailRegex_test s =
     (let local = takeWhile (\<lambda>c. c \<noteq> CHR ''@'') s;
          rest = dropWhile (\<lambda>c. c \<noteq> CHR ''@'') s
      in local \<noteq> [] \<and> list_all local_char local \<and> rest \<noteq> []
         \<and> list_all domain_label (split_on CHR ''.'' (tl rest)))"

subsection \<open>createUser\<close>

text \<open>
  The properties \<open>name\<close>, \<open>email\<close> and \<open>role\<close> of the request body are strings when
  present (the validators of the route reject any other body); \<open>None\<close> is a missing
  property. Every exception inside the handler reaches the outer \<open>catch\<close>, which logs
  and calls \<open>next(error)\<close>.
\<close>

record create_body =
  body_name :: "string option"
  body_email :: "string option"
  body_role :: "string option"

definition bad_request :: "string \<Rightarrow> jsval" where
  "bad_request msg = JObj [(''success'', JBool False), (''error'', JStr msg)]"

text \<open>
  The \<open>try\<close> block around the bio generation, the creation of the user and the
  response. Its \<open>catch\<close> logs and throws again, whichever of the awaited calls failed.
\<close>

definition createUser_try ::
  "env \<Rightarrow> providers \<Rightarrow> AIService \<Rightarrow> db \<Rightarrow> create_body \<Rightarrow> string \<Rightarrow> role_doc \<Rightarrow> event list
     \<Rightarrow> (js_error + outcome) \<times> event list" where
  "createUser_try e P svc D body normalizedEmail roleInfo tr =
     (case generateBio e P svc (js_string (body_name body)) (role_name roleInfo) tr of
        (Inl bioError, tr1) \<Rightarrow> (Inl bioError, tr1 @ [Log Err])
      | (Inr bio, tr1) \<Rightarrow>
          let doc = [(''name'', js_value (body_name body)), (''email'', JStr normalizedEmail),
                     (''role'', JStr (role_id roleInfo)), (''bio'', JStr bio)];
              tr2 = tr1 @ [Log Info, Log Info, UserCreate doc]
          in case User_create D doc of
               Inl bioError \<Rightarrow> (Inl bioError, tr2 @ [Log Err])
             | Inr user \<Rightarrow>
                 let tr3 = tr2 @ [Log Info, Log Info, UserPopulate (user_id user)]
                 in case populate D user of
                      Inl bioError \<Rightarrow> (Inl bioError, tr3 @ [Log Err])
                    | Inr user' \<Rightarrow>
                        (Inr (Respond 201
                           (JObj [(''success'', JBool True),
                                  (''message'', JStr ''User created successfully''),
                                  (''data'', getPublicProfile user')])),
                         tr3 @ [Log Info, Log Info, Log Info]))"

definition createUser ::
  "env \<Rightarrow> providers \<Rightarrow> AIService \<Rightarrow> db \<Rightarrow> create_body \<Rightarrow> event list \<Rightarrow> outcome \<times> event list" where
  "createUser e P svc D body tr =
     (let tr1 = tr @ [Log Info, Log Info, Log Info];
          missing = (Respond 400 (bad_request ''Email is required and cannot be empty''), tr1 @ [Log Err])
      in case body_email body of
        None \<Rightarrow> missing
      | Some email \<Rightarrow>
        if email = [] \<or> trim email = [] then missing
        else
        let normalizedEmail = toLowerCase (trim email);
            tr2 = tr1 @ [Log Info] in
        if \<not> emailRegex_test normalizedEmail
        then (Respond 400 (bad_request ''Please provide a valid email address format''), tr2 @ [Log Err])
        else if length normalizedEmail > 254
        then (Respond 400 (bad_request ''Email address is too long (maximum 254 characters)''),
              tr2 @ [Log Err])
        else
          let tr3 = tr2 @ [Log Info, Log Info, UserFindOne normalizedEmail] in
          case User_findOne D normalizedEmail of
            Inl error \<Rightarrow> (Next error, tr3 @ [Log Err])
          | Inr (Some existingUser) \<Rightarrow>
              (Respond 409
                 (JObj [(''success'', JBool False),
                        (''error'', JStr ''A user with this email address already exists''),
                        (''details'', JObj [(''conflictField'', JStr ''email''),
                                            (''conflictValue'', JStr normalizedEmail)])]),
               tr3 @ [Log Warn])
          | Inr None \<Rightarrow>
              let tr4 = tr3 @ [Log Info, Log Info, RoleFindById (js_value (body_role body))] in
              case Role_findById D (js_value (body_role body)) of
                Inl error \<Rightarrow> (Next error, tr4 @ [Log Err])
              | Inr None \<Rightarrow> (Respond 400 (bad_request ''Invalid role ID provided''), tr4 @ [Log Err])
              | Inr (Some roleInfo) \<Rightarrow>
                  (case createUser_try e P svc D body normalizedEmail roleInfo (tr4 @ [Log Info, Log Info]) of
                     (Inl error, tr5) \<Rightarrow> (Next error, tr5 @ [Log Err])
                   | (Inr response, tr5) \<Rightarrow> (response, tr5)))"

subsection \<open>updateUser\<close>

text \<open>
  The request: the \<open>id\<close> of the route (\<open>uid\<close>) and the body, an object. \<open>now\<close> is the value of
  \<open>Date.now()\<close> when the update is built.
\<close>

definition updateUser ::
  "env \<Rightarrow> providers \<Rightarrow> AIService \<Rightarrow> db \<Rightarrow> int \<Rightarrow> string \<Rightarrow> (string \<times> jsval) list \<Rightarrow> event list
     \<Rightarrow> outcome \<times> event list" where
  "updateUser e P svc D now uid body tr =
     (let updates = js_delete (js_delete (js_delete body ''_id'') ''__v'') ''createdAt'';
          looked =
            (if js_truthy (js_get updates ''role'')
             then (case Role_findById D (js_get updates ''role'') of
                     Inl error \<Rightarrow> Inl (Next error, tr @ [RoleFindById (js_get updates ''role''), Log Err])
                   | Inr None \<Rightarrow>
                       Inl (Respond 400 (bad_request ''Invalid role ID provided''),
                            tr @ [RoleFindById (js_get updates ''role'')])
                   | Inr (Some r) \<Rightarrow> Inr (Some r, tr @ [RoleFindById (js_get updates ''role'')]))
             else Inr (None, tr))
      in case looked of
           Inl done \<Rightarrow> done
         | Inr (roleInfo, tr1) \<Rightarrow>
             let update = js_set updates ''updatedAt'' (JNum now);
                 tr2 = tr1 @ [UserFindByIdAndUpdate uid update]
             in case User_findByIdAndUpdate D uid update of
                  Inl error \<Rightarrow> (Next error, tr2 @ [Log Err])
                | Inr None \<Rightarrow>
                    (Respond 404 (bad_request ''User not found''), tr2)
                | Inr (Some user) \<Rightarrow>
                    let (user', tr3) =
                          (case roleInfo of
                             None \<Rightarrow> (user, tr2)
                           | Some r \<Rightarrow>
                               (case generateBio e P svc (user_name user) (role_name r) (tr2 @ [Log Info]) of
                                  (Inl bioError, tr') \<Rightarrow> (user, tr' @ [Log Warn])
                                | (Inr newBio, tr') \<Rightarrow>
                                    (case save D (user\<lparr> user_bio := newBio \<rparr>) of
                                       Inl bioError \<Rightarrow>
                                         (user\<lparr> user_bio := newBio \<rparr>,
                                          tr' @ [UserSave (user\<lparr> user_bio := newBio \<rparr>), Log Warn])
                                     | Inr u \<Rightarrow>
                                         (user\<lparr> user_bio := newBio \<rparr>,
                                          tr' @ [UserSave (user\<lparr> user_bio := newBio \<rparr>)]))))
                    in (Respond 200
                          (JObj [(''success'', JBool True),
                                 (''message'', JStr ''User updated successfully''),
                                 (''data'', getPublicProfile user')]),
                        tr3 @ [Log Info]))"

subsection \<open>getAIStatus\<close>

definition getAIStatus :: "env \<Rightarrow> AIService \<Rightarrow> event list \<Rightarrow> outcome \<times> event list" where
  "getAIStatus e svc tr =
     (let status = getServiceStatus e svc
      in (Respond 200
            (JObj [(''success'', JBool True),
                   (''message'', JStr ''AI service status retrieved''),
                   (''data'', JObj [(''services'', JObj status),
                                    (''configured'',
                                     js_or (js_get status ''openai'') (js_get status ''huggingface''))])]),
          tr))"

section \<open>Concrete configurations\<close>

text \<open>Environments, provider behaviours and errors at which the theorems are instantiated.\<close>

definition env_both :: env where
  "env_both = \<lparr> OPENAI_API_KEY = Some ''sk-test'', GEMINI_API_KEY = Some ''g-test'' \<rparr>"

definition env_openai_only :: env where
  "env_openai_only = \<lparr> OPENAI_API_KEY = Some ''sk-test'', GEMINI_API_KEY = None \<rparr>"

definition env_gemini_only :: env where
  "env_gemini_only = \<lparr> OPENAI_API_KEY = None, GEMINI_API_KEY = Some ''g-test'' \<rparr>"

definition env_placeholder :: env where
  "env_placeholder = \<lparr> OPENAI_API_KEY = Some [], GEMINI_API_KEY = Some ''your_gemini_api_key_here'' \<rparr>"

definition err_unauthorized :: js_error where
  "err_unauthorized = \<lparr> message = ''Incorrect API key provided'', status = Some 401, code = Some ''invalid_api_key'' \<rparr>"

definition err_rate_limit :: js_error where
  "err_rate_limit = \<lparr> message = ''Rate limit reached'', status = Some 429, code = Some ''rate_limit_exceeded'' \<rparr>"

definition err_overloaded :: js_error where
  "err_overloaded = \<lparr> message = ''The model is overloaded'', status = Some 503, code = None \<rparr>"

text \<open>
  Provider texts with white space at both ends: U+00A0 and a space in front, a space,
  U+3000 and a line feed behind; U+FEFF in front, U+2028 and a line feed behind;
  U+2009 in front and U+00A0 behind.
\<close>

definition bio_padded :: string where
  "bio_padded = [CHR 0xC2, CHR 0xA0] @ '' Ada builds compilers. '' @ [CHR 0xE3, CHR 0x80, CHR 0x80, CHR 0x0A]"

definition gemini_bio_padded :: string where
  "gemini_bio_padded =
     [CHR 0xEF, CHR 0xBB, CHR 0xBF] @ ''Ada is an engineer.'' @ [CHR 0xE2, CHR 0x80, CHR 0xA8, CHR 0x0A]"

definition third_bio_padded :: string where
  "third_bio_padded = [CHR 0xE2, CHR 0x80, CHR 0x89] @ ''Third time lucky.'' @ [CHR 0xC2, CHR 0xA0]"

text \<open>OpenAI answers every call; Gemini is down.\<close>

definition providers_openai_up :: providers where
  "providers_openai_up =
     \<lparr> openai_create = (\<lambda>n p. Inr [Some bio_padded]),
       gemini_generateContent = (\<lambda>n p. Inl err_overloaded) \<rparr>"

text \<open>OpenAI is not asked; Gemini answers.\<close>

definition providers_gemini_up :: providers where
  "providers_gemini_up =
     \<lparr> openai_create = (\<lambda>n p. Inl err_unauthorized),
       gemini_generateContent = (\<lambda>n p. Inr gemini_bio_padded) \<rparr>"

text \<open>OpenAI rejects the key; Gemini answers.\<close>

definition providers_openai_unauthorized :: providers where
  "providers_openai_unauthorized =
     \<lparr> openai_create = (\<lambda>n p. Inl err_unauthorized),
       gemini_generateContent = (\<lambda>n p. Inr (''Ada is an engineer.'' @ [CHR 0x0A])) \<rparr>"

text \<open>OpenAI fails twice with a rate limit and then answers; Gemini is down.\<close>

definition providers_openai_third :: providers where
  "providers_openai_third =
     \<lparr> openai_create = (\<lambda>n p. if n < 2 then Inl err_rate_limit else Inr [Some third_bio_padded]),
       gemini_generateContent = (\<lambda>n p. Inl err_overloaded) \<rparr>"

text \<open>Both providers fail on every call.\<close>

definition providers_down :: providers where
  "providers_down =
     \<lparr> openai_create = (\<lambda>n p. Inl err_rate_limit),
       gemini_generateContent = (\<lambda>n p. Inl err_overloaded) \<rparr>"

text \<open>A database with one role and one user; no user has the email of the request.\<close>

definition role_engineer :: role_doc where
  "role_engineer = \<lparr> role_id = ''r1'', role_name = ''ENGINEER'', role_description = ''Builds things'' \<rparr>"

definition user_ada :: user_doc where
  "user_ada =
     \<lparr> user_id = ''u1'', user_name = ''Ada'', user_email = ''ada@example.com'',
       user_role = JObj [(''_id'', JStr ''r1''), (''name'', JStr ''ENGINEER''),
                         (''description'', JStr ''Builds things'')],
       user_status = ''ACTIVE'', user_bio = ''An earlier bio.'',
       user_createdAt = 1700000000000, user_updatedAt = 1700000500000 \<rparr>"

definition db_small :: db where
  "db_small =
     \<lparr> User_findOne = (\<lambda>em. Inr None),
       Role_findById = (\<lambda>r. if r = JStr ''r1'' then Inr (Some role_engineer) else Inr None),
       User_create = (\<lambda>doc. Inr user_ada),
       populate = (\<lambda>u. Inr u),
       User_findByIdAndUpdate = (\<lambda>uid upd. if uid = ''u1'' then Inr (Some user_ada) else Inr None),
       save = (\<lambda>u. Inr ()) \<rparr>"

definition body_ada :: create_body where
  "body_ada = \<lparr> body_name = Some ''Ada'', body_email = Some '' Ada@Example.com '', body_role = Some ''r1'' \<rparr>"

section \<open>Properties of trim\<close>

text \<open>
  The bytes of a code point are read back as one sequence with that code point, so on
  the encoding of a string \<open>trim\<close> is the removal of the white space code points at
  both ends.
\<close>

lemma byte_char_of: "0 \<le> n \<Longrightarrow> n < 256 \<Longrightarrow> byte (char_of n) = n"
  by (simp add: byte_def)

lemma sequence_length_char_of:
  fixes b :: int
  assumes "0 \<le> b" "b < 256"
  shows "sequence_length (char_of b) =
           (if 0xC0 \<le> b \<and> b < 0xE0 then 2 else if 0xE0 \<le> b \<and> b < 0xF0 then 3
            else if 0xF0 \<le> b \<and> b < 0xF8 then 4 else 1)"
  using assms by (simp add: sequence_length_def byte_char_of)

lemma continuation_char_of:
  fixes b :: int
  assumes "0x80 \<le> b" "b < 0xC0"
  shows "continuation (char_of b)"
  using assms by (simp add: continuation_def byte_char_of)

lemma sequences_1:
  fixes b1 :: int
  assumes "0 \<le> b1" "b1 < 0x80"
  shows "sequences (char_of b1 # r) = [char_of b1] # sequences r"
proof -
  have "sequence_length (char_of b1) = 1"
    using assms by (simp add: sequence_length_char_of)
  then have "first_sequence (char_of b1) r = [char_of b1]"
    by (simp add: first_sequence_def)
  then show ?thesis by simp
qed

lemma sequences_2:
  fixes b1 b2 :: int
  assumes "0xC0 \<le> b1" "b1 < 0xE0" "0x80 \<le> b2" "b2 < 0xC0"
  shows "sequences (char_of b1 # char_of b2 # r) = [char_of b1, char_of b2] # sequences r"
proof -
  have "sequence_length (char_of b1) = 2"
    using assms by (simp add: sequence_length_char_of)
  then have "first_sequence (char_of b1) (char_of b2 # r) = [char_of b1, char_of b2]"
    using continuation_char_of [OF assms(3,4)] by (simp add: first_sequence_def)
  then show ?thesis by simp
qed

lemma sequences_3:
  fixes b1 b2 b3 :: int
  assumes "0xE0 \<le> b1" "b1 < 0xF0" "0x80 \<le> b2" "b2 < 0xC0" "0x80 \<le> b3" "b3 < 0xC0"
  shows "sequences (char_of b1 # char_of b2 # char_of b3 # r) = [char_of b1, char_of b2, char_of b3] # sequences r"
proof -
  have "sequence_length (char_of b1) = 3"
    using assms by (simp add: sequence_length_char_of)
  then have "first_sequence (char_of b1) (char_of b2 # char_of b3 # r) = [char_of b1, char_of b2, char_of b3]"
    using continuation_char_of [OF assms(3,4)] continuation_char_of [OF assms(5,6)]
    by (simp add: first_sequence_def numeral_2_eq_2)
  then show ?thesis by simp
qed

lemma sequences_4:
  fixes b1 b2 b3 b4 :: int
  assumes "0xF0 \<le> b1" "b1 < 0xF8" "0x80 \<le> b2" "b2 < 0xC0" "0x80 \<le> b3" "b3 < 0xC0" "0x80 \<le> b4" "b4 < 0xC0"
  shows "sequences (char_of b1 # char_of b2 # char_of b3 # char_of b4 # r) =
           [char_of b1, char_of b2, char_of b3, char_of b4] # sequences r"
proof -
  have "sequence_length (char_of b1) = 4"
    using assms by (simp add: sequence_length_char_of)
  then have "first_sequence (char_of b1) (char_of b2 # char_of b3 # char_of b4 # r) =
      [char_of b1, char_of b2, char_of b3, char_of b4]"
    using continuation_char_of [OF assms(3,4)] continuation_char_of [OF assms(5,6)]
      continuation_char_of [OF assms(7,8)]
    by (simp add: first_sequence_def numeral_3_eq_3)
  then show ?thesis by simp
qed

lemma code_point_2:
  fixes b1 b2 :: int
  assumes "0 \<le> b1" "b1 < 256" "0 \<le> b2" "b2 < 256"
  shows "code_point [char_of b1, char_of b2] = (b1 - 0xC0) * 64 + (b2 - 0x80)"
  using assms by (simp add: byte_char_of)

lemma code_point_3:
  fixes b1 b2 b3 :: int
  assumes "0 \<le> b1" "b1 < 256" "0 \<le> b2" "b2 < 256" "0 \<le> b3" "b3 < 256"
  shows "code_point [char_of b1, char_of b2, char_of b3] = (b1 - 0xE0) * 4096 + (b2 - 0x80) * 64 + (b3 - 0x80)"
  using assms by (simp add: byte_char_of)

lemma code_point_4:
  fixes b1 b2 b3 b4 :: int
  assumes "0 \<le> b1" "b1 < 256" "0 \<le> b2" "b2 < 256" "0 \<le> b3" "b3 < 256" "0 \<le> b4" "b4 < 256"
  shows "code_point [char_of b1, char_of b2, char_of b3, char_of b4] =
           (b1 - 0xF0) * 262144 + (b2 - 0x80) * 4096 + (b3 - 0x80) * 64 + (b4 - 0x80)"
  using assms by (simp add: byte_char_of)

lemma split_2:
  fixes q :: int
  shows "q div 64 * 4096 + q mod 64 * 64 = q * 64"
proof -
  have "(q div 64 * 64 + q mod 64) * 64 = q * 64"
    by (simp only: div_mult_mod_eq)
  then show ?thesis
    by (simp only: distrib_right mult.assoc)
qed

lemma split_3:
  fixes c :: int
  shows "c div 4096 * 4096 + c div 64 mod 64 * 64 + c mod 64 = c"
proof -
  have "c div 4096 = c div 64 div 64"
    by (simp add: zdiv_zmult2_eq [symmetric])
  then have "c div 4096 * 4096 + c div 64 mod 64 * 64 = c div 64 * 64"
    using split_2 [of "c div 64"] by simp
  then show ?thesis
    by simp
qed

lemma split_4:
  fixes c :: int
  shows "c div 262144 * 262144 + c div 4096 mod 64 * 4096 + c div 64 mod 64 * 64 + c mod 64 = c"
proof -
  have "c div 262144 = c div 4096 div 64"
    by (simp add: zdiv_zmult2_eq [symmetric])
  moreover have "c div 4096 div 64 * 262144 + c div 4096 mod 64 * 4096 = c div 4096 * 4096"
    using split_2 [of "c div 4096"] by simp
  ultimately have "c div 262144 * 262144 + c div 4096 mod 64 * 4096 = c div 4096 * 4096"
    by simp
  then show ?thesis
    using split_3 [of c] by simp
qed

lemma continuation_bounds:
  fixes x :: int
  shows "0x80 \<le> 0x80 + x mod 64" "0x80 + x mod 64 < 0xC0" "0 \<le> 0x80 + x mod 64" "0x80 + x mod 64 < 256"
  by simp_all

lemma lead_bounds:
  fixes x :: int
  assumes "0 \<le> x"
  shows "x < 32 \<Longrightarrow> 0xC0 \<le> 0xC0 + x \<and> 0xC0 + x < 0xE0 \<and> 0 \<le> 0xC0 + x \<and> 0xC0 + x < 256"
    and "x < 16 \<Longrightarrow> 0xE0 \<le> 0xE0 + x \<and> 0xE0 + x < 0xF0 \<and> 0 \<le> 0xE0 + x \<and> 0xE0 + x < 256"
    and "x < 8 \<Longrightarrow> 0xF0 \<le> 0xF0 + x \<and> 0xF0 + x < 0xF8 \<and> 0 \<le> 0xF0 + x \<and> 0xF0 + x < 256"
  using assms by simp_all

lemma utf8_1:
  fixes c :: int
  assumes "0 \<le> c" "c < 0x80"
  shows "sequences (map char_of (utf8 c) @ r) = map char_of (utf8 c) # sequences r
       \<and> code_point (map char_of (utf8 c)) = c"
proof -
  from assms have u: "utf8 c = [c]"
    by (simp add: utf8_def)
  have "byte (char_of c) = c"
    using assms by (simp add: byte_char_of)
  then show ?thesis
    unfolding u using sequences_1 [OF assms, of r] by simp
qed

lemma utf8_2:
  fixes c :: int
  assumes "0x80 \<le> c" "c < 0x800"
  shows "sequences (map char_of (utf8 c) @ r) = map char_of (utf8 c) # sequences r
       \<and> code_point (map char_of (utf8 c)) = c"
proof -
  from assms have u: "utf8 c = [0xC0 + c div 64, 0x80 + c mod 64]"
    by (simp add: utf8_def)
  from assms have d: "0 \<le> c div 64" "c div 64 < 32" by linarith+
  note l = lead_bounds(1) [OF d]
  note k = continuation_bounds [of c]
  have s: "sequences (char_of (0xC0 + c div 64) # char_of (0x80 + c mod 64) # r) =
      [char_of (0xC0 + c div 64), char_of (0x80 + c mod 64)] # sequences r"
    using l k(1,2) by (intro sequences_2) blast+
  have "code_point [char_of (0xC0 + c div 64), char_of (0x80 + c mod 64)] =
      (0xC0 + c div 64 - 0xC0) * 64 + (0x80 + c mod 64 - 0x80)"
    using l k(3,4) by (intro code_point_2) blast+
  also have "\<dots> = c div 64 * 64 + c mod 64"
    by (simp only: add_diff_cancel_left')
  also have "\<dots> = c"
    by (rule div_mult_mod_eq)
  finally have p: "code_point [char_of (0xC0 + c div 64), char_of (0x80 + c mod 64)] = c" .
  show ?thesis
    unfolding u using s p by (simp only: list.map append.simps simp_thms)
qed

lemma utf8_3:
  fixes c :: int
  assumes "0x800 \<le> c" "c < 0x10000"
  shows "sequences (map char_of (utf8 c) @ r) = map char_of (utf8 c) # sequences r
       \<and> code_point (map char_of (utf8 c)) = c"
proof -
  from assms have u: "utf8 c = [0xE0 + c div 4096, 0x80 + c div 64 mod 64, 0x80 + c mod 64]"
    by (simp add: utf8_def)
  from assms have d: "0 \<le> c div 4096" "c div 4096 < 16" by linarith+
  note l = lead_bounds(2) [OF d]
  note k2 = continuation_bounds [of "c div 64"]
  note k3 = continuation_bounds [of c]
  have s: "sequences (char_of (0xE0 + c div 4096) # char_of (0x80 + c div 64 mod 64) # char_of (0x80 + c mod 64) # r) =
      [char_of (0xE0 + c div 4096), char_of (0x80 + c div 64 mod 64), char_of (0x80 + c mod 64)] # sequences r"
    using l k2(1,2) k3(1,2) by (intro sequences_3) blast+
  have "code_point [char_of (0xE0 + c div 4096), char_of (0x80 + c div 64 mod 64), char_of (0x80 + c mod 64)] =
      (0xE0 + c div 4096 - 0xE0) * 4096 + (0x80 + c div 64 mod 64 - 0x80) * 64 + (0x80 + c mod 64 - 0x80)"
    using l k2(3,4) k3(3,4) by (intro code_point_3) blast+
  also have "\<dots> = c div 4096 * 4096 + c div 64 mod 64 * 64 + c mod 64"
    by (simp only: add_diff_cancel_left')
  also have "\<dots> = c"
    by (rule split_3)
  finally have p: "code_point [char_of (0xE0 + c div 4096), char_of (0x80 + c div 64 mod 64), char_of (0x80 + c mod 64)] = c" .
  show ?thesis
    unfolding u using s p by (simp only: list.map append.simps simp_thms)
qed

lemma utf8_4:
  fixes c :: int
  assumes "0x10000 \<le> c" "c < 0x110000"
  shows "sequences (map char_of (utf8 c) @ r) = map char_of (utf8 c) # sequences r
       \<and> code_point (map char_of (utf8 c)) = c"
proof -
  from assms have u: "utf8 c =
      [0xF0 + c div 262144, 0x80 + c div 4096 mod 64, 0x80 + c div 64 mod 64, 0x80 + c mod 64]"
    by (simp add: utf8_def)
  from assms have d: "0 \<le> c div 262144" "c div 262144 < 8" by linarith+
  note l = lead_bounds(3) [OF d]
  note k2 = continuation_bounds [of "c div 4096"]
  note k3 = continuation_bounds [of "c div 64"]
  note k4 = continuation_bounds [of c]
  have s: "sequences (char_of (0xF0 + c div 262144) # char_of (0x80 + c div 4096 mod 64)
        # char_of (0x80 + c div 64 mod 64) # char_of (0x80 + c mod 64) # r) =
      [char_of (0xF0 + c div 262144), char_of (0x80 + c div 4096 mod 64),
       char_of (0x80 + c div 64 mod 64), char_of (0x80 + c mod 64)] # sequences r"
    using l k2(1,2) k3(1,2) k4(1,2) by (intro sequences_4) blast+
  have "code_point [char_of (0xF0 + c div 262144), char_of (0x80 + c div 4096 mod 64),
        char_of (0x80 + c div 64 mod 64), char_of (0x80 + c mod 64)] =
      (0xF0 + c div 262144 - 0xF0) * 262144 + (0x80 + c div 4096 mod 64 - 0x80) * 4096
        + (0x80 + c div 64 mod 64 - 0x80) * 64 + (0x80 + c mod 64 - 0x80)"
    using l k2(3,4) k3(3,4) k4(3,4) by (intro code_point_4) blast+
  also have "\<dots> = c div 262144 * 262144 + c div 4096 mod 64 * 4096 + c div 64 mod 64 * 64 + c mod 64"
    by (simp only: add_diff_cancel_left')
  also have "\<dots> = c"
    by (rule split_4)
  finally have p: "code_point [char_of (0xF0 + c div 262144), char_of (0x80 + c div 4096 mod 64),
        char_of (0x80 + c div 64 mod 64), char_of (0x80 + c mod 64)] = c" .
  show ?thesis
    unfolding u using s p by (simp only: list.map append.simps simp_thms)
qed

lemma sequences_utf8:
  fixes c :: int
  assumes "0 \<le> c" "c < 0x110000"
  shows "sequences (map char_of (utf8 c) @ r) = map char_of (utf8 c) # sequences r
       \<and> code_point (map char_of (utf8 c)) = c"
proof -
  consider "c < 0x80" | "0x80 \<le> c" "c < 0x800" | "0x800 \<le> c" "c < 0x10000" | "0x10000 \<le> c"
    by linarith
  then show ?thesis
  proof cases
    case 1
    with assms(1) show ?thesis by (rule utf8_1)
  next
    case 2
    then show ?thesis by (rule utf8_2)
  next
    case 3
    then show ?thesis by (rule utf8_3)
  next
    case 4
    then show ?thesis using assms(2) by (intro utf8_4)
  qed
qed

lemma sequences_encode:
  assumes "\<forall>c\<in>set cs. 0 \<le> c \<and> c < 0x110000"
  shows "sequences (encode cs) = map (\<lambda>c. map char_of (utf8 c)) cs"
  using assms
proof (induction cs)
  case Nil
  then show ?case by (simp add: encode_def)
next
  case (Cons c cs)
  then have "0 \<le> c" "c < 0x110000" and "sequences (encode cs) = map (\<lambda>c. map char_of (utf8 c)) cs"
    by simp_all
  then show ?case
    using sequences_utf8 [of c "encode cs"] by (simp add: encode_def)
qed

lemma dropWhile_encoded:
  assumes "\<forall>c\<in>set cs. 0 \<le> c \<and> c < 0x110000"
  shows "dropWhile (\<lambda>sq. js_whitespace (code_point sq)) (map (\<lambda>c. map char_of (utf8 c)) cs) =
           map (\<lambda>c. map char_of (utf8 c)) (dropWhile js_whitespace cs)"
  using assms
proof (induction cs)
  case Nil
  then show ?case by simp
next
  case (Cons c cs)
  then have "code_point (map char_of (utf8 c)) = c"
    using sequences_utf8 [of c "[]"] by simp
  with Cons show ?case by simp
qed

text \<open>On the encoding of a string, \<open>trim\<close> removes the white space code points at both ends.\<close>

lemma trim_encode:
  assumes "\<forall>c\<in>set cs. 0 \<le> c \<and> c < 0x110000"
  shows "trim (encode cs) = encode (rev (dropWhile js_whitespace (rev (dropWhile js_whitespace cs))))"
proof -
  let ?enc = "\<lambda>c. map char_of (utf8 c)"
  let ?front = "dropWhile js_whitespace cs"
  have front: "\<forall>c\<in>set (rev ?front). 0 \<le> c \<and> c < 0x110000"
    using assms by (auto dest: set_dropWhileD)
  have "dropWhile (\<lambda>sq. js_whitespace (code_point sq)) (sequences (encode cs)) = map ?enc ?front"
    by (simp add: sequences_encode [OF assms] dropWhile_encoded [OF assms])
  then have "rev (dropWhile (\<lambda>sq. js_whitespace (code_point sq)) (sequences (encode cs))) = map ?enc (rev ?front)"
    by (simp add: rev_map)
  then have "dropWhile (\<lambda>sq. js_whitespace (code_point sq))
               (rev (dropWhile (\<lambda>sq. js_whitespace (code_point sq)) (sequences (encode cs))))
             = map ?enc (dropWhile js_whitespace (rev ?front))"
    by (simp add: dropWhile_encoded [OF front])
  then show ?thesis
    by (simp add: trim_def encode_def rev_map)
qed

section \<open>Properties of the status report\<close>

lemma constructor_openai:
  "openai (fst (constructor e tr)) = (if truthy (OPENAI_API_KEY e) then OPENAI_API_KEY e else None)"
  by (simp add: constructor_def Let_def split: prod.splits)

lemma constructor_geminiModel:
  "geminiModel (fst (constructor e tr)) =
     (if truthy (GEMINI_API_KEY e) \<and> GEMINI_API_KEY e \<noteq> Some ''your_gemini_api_key_here''
      then Some ''gemini-2.5-flash'' else None)"
  by (simp add: constructor_def Let_def split: prod.splits)

lemma truthy_iff: "truthy v = (\<exists>s. v = Some s \<and> s \<noteq> [])"
  by (cases v) (simp_all add: truthy_def)

text \<open>
  Claim C8. The status report is a function of the configuration alone: with the
  service object built from the environment \<open>e\<close>, the field \<open>openai\<close> is true exactly
  when the OpenAI key is set (to a non-empty string), \<open>gemini\<close> is true exactly when
  the Gemini key is set (to a non-empty string) and differs from the placeholder
  \<open>your_gemini_api_key_here\<close>, \<open>hasAnyService\<close> is the disjunction of the two and
  \<open>fallback\<close> equals \<open>gemini\<close>.
\<close>

theorem getServiceStatus_reflects_configuration:
  fixes e :: env and tr :: "event list"
  defines "st \<equiv> getServiceStatus e (fst (constructor e tr))"
  defines "a \<equiv> (\<exists>k. OPENAI_API_KEY e = Some k \<and> k \<noteq> [])"
  defines "b \<equiv> (\<exists>k. GEMINI_API_KEY e = Some k \<and> k \<noteq> [] \<and> k \<noteq> ''your_gemini_api_key_here'')"
  shows "js_get st ''openai'' = JBool a
       \<and> js_get st ''gemini'' = JBool b
       \<and> js_get st ''hasAnyService'' = JBool (a \<or> b)
       \<and> js_get st ''fallback'' = JBool b"
proof -
  have oc: "openaiConfigured e (fst (constructor e tr)) = a"
    unfolding openaiConfigured_def a_def constructor_openai truthy_iff by auto
  have gc: "geminiConfigured e (fst (constructor e tr)) = b"
    unfolding geminiConfigured_def b_def constructor_geminiModel truthy_iff by auto
  show ?thesis
    unfolding st_def getServiceStatus_def js_get_def oc gc by simp
qed

section \<open>Properties of bio generation\<close>

declare retry_loop.simps [simp del]

lemma calls_append [simp]: "calls (xs @ ys) = calls xs @ calls ys"
  by (simp add: calls_def)

lemma calls_Nil [simp]: "calls [] = []"
  by (simp add: calls_def)

lemma calls_Cons [simp]: "calls (ev # tr) = (if is_Log ev then calls tr else ev # calls tr)"
  by (simp add: calls_def)

subsection \<open>One call to a provider\<close>

lemma generateBioWithOpenAI_ok:
  assumes "openai svc \<noteq> None"
    and "openai_create P (length (filter is_OpenAICall tr)) (openai_prompt name role) = Inr (Some text # cs)"
  shows "generateBioWithOpenAI P svc name role tr =
           (Inr (trim text), tr @ [OpenAICall (openai_prompt name role), Log Info])"
  using assms by (simp add: generateBioWithOpenAI_def Let_def)

lemma generateBioWithOpenAI_fails:
  assumes "openai svc \<noteq> None"
    and "openai_create P (length (filter is_OpenAICall tr)) (openai_prompt name role) = Inl err"
  shows "generateBioWithOpenAI P svc name role tr =
           (Inl err, tr @ [OpenAICall (openai_prompt name role), Log Err])"
  using assms by (simp add: generateBioWithOpenAI_def Let_def)

lemma generateBioWithGemini_ok:
  assumes "geminiModel svc \<noteq> None"
    and "gemini_generateContent P (length (filter is_GeminiCall tr)) (gemini_prompt name role) = Inr text"
  shows "generateBioWithGemini P svc name role tr =
           (Inr (trim text), tr @ [GeminiCall (gemini_prompt name role), Log Info])"
  using assms by (simp add: generateBioWithGemini_def Let_def)

lemma generateBioWithGemini_fails:
  assumes "geminiModel svc \<noteq> None"
    and "gemini_generateContent P (length (filter is_GeminiCall tr)) (gemini_prompt name role) = Inl err"
  shows "generateBioWithGemini P svc name role tr =
           (Inl err, tr @ [GeminiCall (gemini_prompt name role), Log Err])"
  using assms by (simp add: generateBioWithGemini_def Let_def)

subsection \<open>One turn of the retry loop\<close>

lemma retry_loop_success:
  assumes "attempt \<le> maxRetries"
    and "generateBioWithOpenAI P svc name role (tr @ [Log Info]) = (Inr bio, tr1)"
  shows "retry_loop P svc name role maxRetries baseDelay attempt lastError tr = (Inr bio, tr1)"
  using assms by (subst retry_loop.simps) simp

lemma retry_loop_auth:
  assumes "attempt \<le> maxRetries"
    and "generateBioWithOpenAI P svc name role (tr @ [Log Info]) = (Inl err, tr1)"
    and "is_auth_error err"
  shows "retry_loop P svc name role maxRetries baseDelay attempt lastError tr =
           (Inl (Some err), tr1 @ [Log Err, Log Err])"
  using assms by (subst retry_loop.simps) simp

lemma retry_loop_exit:
  assumes "maxRetries < attempt"
  shows "retry_loop P svc name role maxRetries baseDelay attempt lastError tr =
           (Inl lastError, tr @ [Log Err])"
  using assms by (subst retry_loop.simps) simp

lemma retry_loop_retry:
  assumes "attempt < maxRetries"
    and "generateBioWithOpenAI P svc name role (tr @ [Log Info]) = (Inl err, tr1)"
    and "\<not> is_auth_error err"
  shows "retry_loop P svc name role maxRetries baseDelay attempt lastError tr =
           retry_loop P svc name role maxRetries baseDelay (attempt + 1) (Some err)
             (tr1 @ [Log Err, Log Info, Sleep (baseDelay * 2 ^ (attempt - 1))])"
  using assms by (subst retry_loop.simps) simp

lemma retry_loop_last:
  assumes "attempt = maxRetries"
    and "generateBioWithOpenAI P svc name role (tr @ [Log Info]) = (Inl err, tr1)"
    and "\<not> is_auth_error err"
  shows "retry_loop P svc name role maxRetries baseDelay attempt lastError tr =
           (Inl (Some err), tr1 @ [Log Err, Log Err])"
proof -
  have "retry_loop P svc name role maxRetries baseDelay attempt lastError tr =
          retry_loop P svc name role maxRetries baseDelay (attempt + 1) (Some err) (tr1 @ [Log Err])"
    using assms by (subst retry_loop.simps) simp
  also have "\<dots> = (Inl (Some err), (tr1 @ [Log Err]) @ [Log Err])"
    using assms(1) by (intro retry_loop_exit) simp
  finally show ?thesis by simp
qed

subsection \<open>The loop up to the attempt that ends it\<close>

text \<open>
  Entered at attempt \<open>a\<close>, when the attempts before \<open>j\<close> fail with retryable errors and
  attempt \<open>j\<close> fails with an authentication error, or is the last one, the loop throws
  the error of attempt \<open>j\<close>; it has waited after every attempt before \<open>j\<close> and not after
  attempt \<open>j\<close>.
\<close>

lemma retry_loop_fails_at:
  assumes "openai svc \<noteq> None" and "1 \<le> a" and "a \<le> j" and "j \<le> m"
    and "\<forall>k. a \<le> k \<and> k < j \<longrightarrow>
           openai_create P (length (filter is_OpenAICall tr) + (k - a)) (openai_prompt name role) = Inl (err k)
           \<and> \<not> is_auth_error (err k)"
    and "openai_create P (length (filter is_OpenAICall tr) + (j - a)) (openai_prompt name role) = Inl (err j)"
    and "is_auth_error (err j) \<or> j = m"
  shows "fst (retry_loop P svc name role m d a lastError tr) = Inl (Some (err j))
       \<and> calls (snd (retry_loop P svc name role m d a lastError tr)) =
           calls tr @ concat (map (\<lambda>k. [OpenAICall (openai_prompt name role), Sleep (d * 2 ^ (k - 1))]) [a..<j])
             @ [OpenAICall (openai_prompt name role)]"
  using assms
proof (induction "j - a" arbitrary: a tr lastError)
  case 0
  let ?p = "openai_prompt name role"
  from 0 have aj: "a = j" by simp
  from "0.prems"(6) aj
  have f: "openai_create P (length (filter is_OpenAICall (tr @ [Log Info]))) ?p = Inl (err j)"
    by simp
  have g: "generateBioWithOpenAI P svc name role (tr @ [Log Info]) =
          (Inl (err j), (tr @ [Log Info]) @ [OpenAICall ?p, Log Err])"
    by (rule generateBioWithOpenAI_fails [OF "0.prems"(1) f])
  have r: "retry_loop P svc name role m d a lastError tr =
          (Inl (Some (err j)), ((tr @ [Log Info]) @ [OpenAICall ?p, Log Err]) @ [Log Err, Log Err])"
  proof (cases "is_auth_error (err j)")
    case True
    show ?thesis
      by (rule retry_loop_auth [OF _ g True]) (use aj "0.prems"(4) in simp)
  next
    case False
    with "0.prems"(7) aj have "a = m" by simp
    then show ?thesis
      by (rule retry_loop_last [OF _ g False])
  qed
  show ?case
    unfolding r using aj by simp
next
  case (Suc n)
  let ?p = "openai_prompt name role"
  from Suc have lt: "a < j" by simp
  with Suc.prems(4) have ltm: "a < m" by simp
  from Suc.prems(5) lt
  have f: "openai_create P (length (filter is_OpenAICall (tr @ [Log Info]))) ?p = Inl (err a)"
    and na: "\<not> is_auth_error (err a)"
    by auto
  have g: "generateBioWithOpenAI P svc name role (tr @ [Log Info]) =
          (Inl (err a), (tr @ [Log Info]) @ [OpenAICall ?p, Log Err])"
    by (rule generateBioWithOpenAI_fails [OF Suc.prems(1) f])
  let ?tr' = "((tr @ [Log Info]) @ [OpenAICall ?p, Log Err]) @ [Log Err, Log Info, Sleep (d * 2 ^ (a - 1))]"
  have step: "retry_loop P svc name role m d a lastError tr =
                retry_loop P svc name role m d (a + 1) (Some (err a)) ?tr'"
    by (rule retry_loop_retry [OF ltm g na])
  have n: "n = j - (a + 1)"
    using Suc.hyps(2) by simp
  have len: "length (filter is_OpenAICall ?tr') = length (filter is_OpenAICall tr) + 1"
    by simp
  have shift: "length (filter is_OpenAICall ?tr') + (k - (a + 1)) = length (filter is_OpenAICall tr) + (k - a)"
    if "a + 1 \<le> k" for k
    using that len by linarith
  have pre: "\<forall>k. a + 1 \<le> k \<and> k < j \<longrightarrow>
           openai_create P (length (filter is_OpenAICall ?tr') + (k - (a + 1))) ?p = Inl (err k)
           \<and> \<not> is_auth_error (err k)"
  proof (intro allI impI)
    fix k assume k: "a + 1 \<le> k \<and> k < j"
    with Suc.prems(5) have "openai_create P (length (filter is_OpenAICall tr) + (k - a)) ?p = Inl (err k)
           \<and> \<not> is_auth_error (err k)"
      by simp
    then show "openai_create P (length (filter is_OpenAICall ?tr') + (k - (a + 1))) ?p = Inl (err k)
           \<and> \<not> is_auth_error (err k)"
      using shift [of k] k by simp
  qed
  have last: "openai_create P (length (filter is_OpenAICall ?tr') + (j - (a + 1))) ?p = Inl (err j)"
    using Suc.prems(6) shift [of j] lt by simp
  have ih: "fst (retry_loop P svc name role m d (a + 1) (Some (err a)) ?tr') = Inl (Some (err j))
       \<and> calls (snd (retry_loop P svc name role m d (a + 1) (Some (err a)) ?tr')) =
           calls ?tr' @ concat (map (\<lambda>k. [OpenAICall ?p, Sleep (d * 2 ^ (k - 1))]) [a + 1..<j])
             @ [OpenAICall ?p]"
    using Suc.hyps(1) [OF n Suc.prems(1) _ _ Suc.prems(4) pre last Suc.prems(7)] lt by simp
  have upt: "[a..<j] = a # [a + 1..<j]"
    using lt by (simp add: upt_conv_Cons)
  show ?case
    unfolding step using ih by (simp add: upt)
qed

subsection \<open>Success on the first attempt\<close>

text \<open>
  Claim C7. For every name and role (empty or not): when OpenAI is configured and its
  client answers the first call with a completion whose first choice has the content
  \<open>text\<close>, \<open>generateBio\<close> returns \<open>text\<close> trimmed (\<open>trim\<close> removes the white space and
  line terminators of Unicode at both ends, see \<open>trim_encode\<close>); the only provider
  event is that one OpenAI call, so there is no wait and no call to Gemini.
\<close>

theorem generateBio_first_attempt_success:
  assumes "truthy (OPENAI_API_KEY e)" and "openai svc \<noteq> None"
    and "openai_create P (length (filter is_OpenAICall tr)) (openai_prompt name role) = Inr (Some text # cs)"
  shows "generateBio e P svc name role tr =
           (Inr (trim text), tr @ [Log Info, Log Info, OpenAICall (openai_prompt name role), Log Info])
       \<and> calls (snd (generateBio e P svc name role tr)) = calls tr @ [OpenAICall (openai_prompt name role)]"
proof -
  have "generateBioWithOpenAI P svc name role ((tr @ [Log Info]) @ [Log Info]) =
          (Inr (trim text), ((tr @ [Log Info]) @ [Log Info]) @ [OpenAICall (openai_prompt name role), Log Info])"
    using assms by (intro generateBioWithOpenAI_ok) simp_all
  then have "generateBioWithRetry P svc name role 3 1000 (tr @ [Log Info]) =
          (Inr (trim text), tr @ [Log Info, Log Info, OpenAICall (openai_prompt name role), Log Info])"
    unfolding generateBioWithRetry_def by (subst retry_loop_success) simp_all
  then have "generateBio e P svc name role tr =
          (Inr (trim text), tr @ [Log Info, Log Info, OpenAICall (openai_prompt name role), Log Info])"
    using assms(1,2) by (simp add: generateBio_def)
  then show ?thesis by simp
qed

theorem generateBio_first_attempt_success_witness:
  "generateBio env_both providers_openai_up (fst (constructor env_both [])) ''Ada'' ''ENGINEER'' [] =
     (Inr ''Ada builds compilers.'',
      [Log Info, Log Info, OpenAICall (openai_prompt ''Ada'' ''ENGINEER''), Log Info])
   \<and> calls (snd (generateBio env_both providers_openai_up (fst (constructor env_both [])) ''Ada'' ''ENGINEER'' []))
       = [OpenAICall (openai_prompt ''Ada'' ''ENGINEER'')]"
proof -
  have a: "truthy (OPENAI_API_KEY env_both)"
    by (simp add: env_both_def truthy_def)
  have b: "openai (fst (constructor env_both [])) \<noteq> None"
    by (simp add: constructor_openai env_both_def truthy_def)
  have c: "openai_create providers_openai_up (length (filter is_OpenAICall []))
             (openai_prompt ''Ada'' ''ENGINEER'') = Inr (Some bio_padded # [])"
    by (simp add: providers_openai_up_def)
  have t: "trim bio_padded = ''Ada builds compilers.''"
    by (simp add: bio_padded_def trim_def first_sequence_def sequence_length_def continuation_def byte_def js_whitespace_def Let_def)
  show ?thesis
    using generateBio_first_attempt_success [OF a b c] by (simp add: t)
qed

subsection \<open>No provider configured\<close>

text \<open>
  Claim C5. For every name and role: when neither the OpenAI branch nor the Gemini
  branch of \<open>generateBio\<close> is open (no usable OpenAI key or client, no Gemini model),
  \<open>generateBio\<close> fails with the error "No AI service is configured ..." and the trace
  gains one log record and no provider call.
\<close>

theorem generateBio_no_provider:
  assumes "\<not> (truthy (OPENAI_API_KEY e) \<and> openai svc \<noteq> None)" and "geminiModel svc = None"
  shows "generateBio e P svc name role tr =
           (Inl (new_Error ''No AI service is configured. Please set either OPENAI_API_KEY or GEMINI_API_KEY environment variable.''),
            tr @ [Log Err])
       \<and> calls (snd (generateBio e P svc name role tr)) = calls tr"
  using assms by (auto simp add: generateBio_def)

theorem generateBio_no_provider_witness:
  "generateBio env_placeholder providers_openai_up (fst (constructor env_placeholder [])) ''Ada'' ''ENGINEER'' [] =
     (Inl \<lparr> message = ''No AI service is configured. Please set either OPENAI_API_KEY or GEMINI_API_KEY environment variable.'',
            status = None, code = None \<rparr>,
      [Log Err])
   \<and> calls (snd (generateBio env_placeholder providers_openai_up (fst (constructor env_placeholder [])) ''Ada'' ''ENGINEER'' [])) = []"
proof -
  have a: "\<not> (truthy (OPENAI_API_KEY env_placeholder) \<and> openai (fst (constructor env_placeholder [])) \<noteq> None)"
    by (simp add: env_placeholder_def truthy_def)
  have b: "geminiModel (fst (constructor env_placeholder [])) = None"
    by (simp add: constructor_geminiModel env_placeholder_def truthy_def)
  show ?thesis
    using generateBio_no_provider [OF a b] by (simp add: new_Error_def)
qed

subsection \<open>Gemini alone\<close>

text \<open>
  Claim C6. For every name and role: when the OpenAI branch is closed and the Gemini
  model exists, \<open>generateBio\<close> is one direct call of Gemini: its text, trimmed as
  \<open>response.text().trim()\<close> does, when the call succeeds and its error, as raised, when
  it fails; however the call ends, the trace gains exactly one Gemini call, no OpenAI
  call and no wait.
\<close>

theorem generateBio_gemini_direct:
  assumes "\<not> (truthy (OPENAI_API_KEY e) \<and> openai svc \<noteq> None)" and "geminiModel svc \<noteq> None"
  shows "fst (generateBio e P svc name role tr) =
           (case gemini_generateContent P (length (filter is_GeminiCall tr)) (gemini_prompt name role) of
              Inl err \<Rightarrow> Inl err
            | Inr text \<Rightarrow> Inr (trim text))
       \<and> calls (snd (generateBio e P svc name role tr)) = calls tr @ [GeminiCall (gemini_prompt name role)]"
  using assms by (auto simp add: generateBio_def generateBioWithGemini_def Let_def split: sum.splits)

theorem generateBio_gemini_direct_witness:
  "fst (generateBio env_gemini_only providers_gemini_up (fst (constructor env_gemini_only [])) ''Ada'' ''ENGINEER'' [])
     = Inr ''Ada is an engineer.''
   \<and> calls (snd (generateBio env_gemini_only providers_gemini_up (fst (constructor env_gemini_only [])) ''Ada'' ''ENGINEER'' []))
     = [GeminiCall (gemini_prompt ''Ada'' ''ENGINEER'')]
   \<and> fst (generateBio env_gemini_only providers_down (fst (constructor env_gemini_only [])) ''Ada'' ''ENGINEER'' [])
     = Inl \<lparr> message = ''The model is overloaded'', status = Some 503, code = None \<rparr>
   \<and> calls (snd (generateBio env_gemini_only providers_down (fst (constructor env_gemini_only [])) ''Ada'' ''ENGINEER'' []))
     = [GeminiCall (gemini_prompt ''Ada'' ''ENGINEER'')]"
proof -
  have a: "\<not> (truthy (OPENAI_API_KEY env_gemini_only) \<and> openai (fst (constructor env_gemini_only [])) \<noteq> None)"
    by (simp add: env_gemini_only_def truthy_def)
  have b: "geminiModel (fst (constructor env_gemini_only [])) \<noteq> None"
    by (simp add: constructor_geminiModel env_gemini_only_def truthy_def)
  have t: "trim gemini_bio_padded = ''Ada is an engineer.''"
    by (simp add: gemini_bio_padded_def trim_def first_sequence_def sequence_length_def continuation_def byte_def js_whitespace_def Let_def)
  show ?thesis
    using generateBio_gemini_direct [OF a b, where P = providers_gemini_up and tr = "[]"
        and name = "''Ada''" and role = "''ENGINEER''"]
      generateBio_gemini_direct [OF a b, where P = providers_down and tr = "[]"
        and name = "''Ada''" and role = "''ENGINEER''"] t
    by (simp add: providers_gemini_up_def providers_down_def err_overloaded_def)
qed

subsection \<open>The default loop, attempt by attempt\<close>

lemma calls_generateBioWithGemini:
  assumes "geminiModel svc \<noteq> None"
  shows "calls (snd (generateBioWithGemini P svc name role tr)) = calls tr @ [GeminiCall (gemini_prompt name role)]"
  using assms by (simp add: generateBioWithGemini_def Let_def split: sum.splits)

lemma generateBioWithRetry_auth_first:
  assumes "openai svc \<noteq> None"
    and "openai_create P (length (filter is_OpenAICall tr)) (openai_prompt name role) = Inl err"
    and "is_auth_error err"
  shows "generateBioWithRetry P svc name role (Suc m) d tr =
           (Inl (Some err), tr @ [Log Info, OpenAICall (openai_prompt name role), Log Err, Log Err, Log Err])"
proof -
  have "generateBioWithOpenAI P svc name role (tr @ [Log Info]) =
          (Inl err, (tr @ [Log Info]) @ [OpenAICall (openai_prompt name role), Log Err])"
    using assms(1,2) by (intro generateBioWithOpenAI_fails) simp_all
  then have "retry_loop P svc name role (Suc m) d 1 None tr =
          (Inl (Some err), ((tr @ [Log Info]) @ [OpenAICall (openai_prompt name role), Log Err]) @ [Log Err, Log Err])"
    using assms(3) by (intro retry_loop_auth) simp_all
  then show ?thesis
    by (simp add: generateBioWithRetry_def)
qed

text \<open>After two retryable failures the default loop stands at attempt 3, having waited twice.\<close>

lemma generateBioWithRetry_two_failures:
  assumes "openai svc \<noteq> None"
    and "openai_create P (length (filter is_OpenAICall tr)) (openai_prompt name role) = Inl e1"
    and "\<not> is_auth_error e1"
    and "openai_create P (length (filter is_OpenAICall tr) + 1) (openai_prompt name role) = Inl e2"
    and "\<not> is_auth_error e2"
  shows "generateBioWithRetry P svc name role 3 1000 tr =
           retry_loop P svc name role 3 1000 3 (Some e2)
             (tr @ [Log Info, OpenAICall (openai_prompt name role), Log Err, Log Err, Log Info, Sleep 1000,
                    Log Info, OpenAICall (openai_prompt name role), Log Err, Log Err, Log Info, Sleep 2000])"
proof -
  let ?p = "openai_prompt name role"
  let ?t1 = "tr @ [Log Info, OpenAICall ?p, Log Err, Log Err, Log Info, Sleep 1000]"
  have g1: "generateBioWithOpenAI P svc name role (tr @ [Log Info]) =
          (Inl e1, (tr @ [Log Info]) @ [OpenAICall ?p, Log Err])"
    using assms(1,2) by (intro generateBioWithOpenAI_fails) simp_all
  have s1: "retry_loop P svc name role 3 1000 1 None tr = retry_loop P svc name role 3 1000 2 (Some e1) ?t1"
    using retry_loop_retry [OF _ g1 assms(3), where attempt = 1 and maxRetries = 3 and baseDelay = 1000 and lastError = None]
    by (simp add: numeral_2_eq_2)
  have g2: "generateBioWithOpenAI P svc name role (?t1 @ [Log Info]) =
          (Inl e2, (?t1 @ [Log Info]) @ [OpenAICall ?p, Log Err])"
    using assms(1,4) by (intro generateBioWithOpenAI_fails) simp_all
  have s2: "retry_loop P svc name role 3 1000 2 (Some e1) ?t1 =
          retry_loop P svc name role 3 1000 3 (Some e2)
            (tr @ [Log Info, OpenAICall ?p, Log Err, Log Err, Log Info, Sleep 1000,
                   Log Info, OpenAICall ?p, Log Err, Log Err, Log Info, Sleep 2000])"
    using retry_loop_retry [OF _ g2 assms(5), where attempt = 2 and maxRetries = 3 and baseDelay = 1000 and lastError = "Some e1"]
    by (simp add: numeral_2_eq_2 numeral_3_eq_3)
  show ?thesis
    unfolding generateBioWithRetry_def s1 s2 ..
qed

lemma generateBioWithRetry_three_failures:
  assumes "openai svc \<noteq> None"
    and "openai_create P (length (filter is_OpenAICall tr)) (openai_prompt name role) = Inl e1"
    and "\<not> is_auth_error e1"
    and "openai_create P (length (filter is_OpenAICall tr) + 1) (openai_prompt name role) = Inl e2"
    and "\<not> is_auth_error e2"
    and "openai_create P (length (filter is_OpenAICall tr) + 2) (openai_prompt name role) = Inl e3"
    and "\<not> is_auth_error e3"
  shows "generateBioWithRetry P svc name role 3 1000 tr =
           (Inl (Some e3),
            tr @ [Log Info, OpenAICall (openai_prompt name role), Log Err, Log Err, Log Info, Sleep 1000,
                  Log Info, OpenAICall (openai_prompt name role), Log Err, Log Err, Log Info, Sleep 2000,
                  Log Info, OpenAICall (openai_prompt name role), Log Err, Log Err, Log Err])"
proof -
  let ?p = "openai_prompt name role"
  let ?t2 = "tr @ [Log Info, OpenAICall ?p, Log Err, Log Err, Log Info, Sleep 1000,
                   Log Info, OpenAICall ?p, Log Err, Log Err, Log Info, Sleep 2000]"
  have g3: "generateBioWithOpenAI P svc name role (?t2 @ [Log Info]) =
          (Inl e3, (?t2 @ [Log Info]) @ [OpenAICall ?p, Log Err])"
    using assms(1,6) by (intro generateBioWithOpenAI_fails) simp_all
  have "retry_loop P svc name role 3 1000 3 (Some e2) ?t2 =
          (Inl (Some e3), ((?t2 @ [Log Info]) @ [OpenAICall ?p, Log Err]) @ [Log Err, Log Err])"
    by (rule retry_loop_last [OF refl g3 assms(7)])
  then show ?thesis
    unfolding generateBioWithRetry_two_failures [OF assms(1-5)] by simp
qed

subsection \<open>Authentication failure on the first attempt\<close>

text \<open>
  Claim C1. For every name and role: when OpenAI is configured and its client fails
  the first call with an error of status 401, of status 403 or of code
  \<open>invalid_api_key\<close>, the retry loop (with any positive number of attempts and any
  base delay) throws that error after that one call and without a wait; and
  \<open>generateBio\<close> makes, after that one OpenAI call, exactly one call to Gemini when
  the Gemini model exists and no further call when it does not.
\<close>

theorem generateBio_auth_error_no_retry:
  assumes "truthy (OPENAI_API_KEY e)" and "openai svc \<noteq> None"
    and "openai_create P (length (filter is_OpenAICall tr)) (openai_prompt name role) = Inl err"
    and "status err = Some 401 \<or> status err = Some 403 \<or> code err = Some ''invalid_api_key''"
  shows "generateBioWithRetry P svc name role (Suc m) d tr =
           (Inl (Some err), tr @ [Log Info, OpenAICall (openai_prompt name role), Log Err, Log Err, Log Err])
       \<and> calls (snd (generateBioWithRetry P svc name role (Suc m) d tr)) =
           calls tr @ [OpenAICall (openai_prompt name role)]
       \<and> calls (snd (generateBio e P svc name role tr)) =
           calls tr @ [OpenAICall (openai_prompt name role)]
             @ (if geminiModel svc \<noteq> None then [GeminiCall (gemini_prompt name role)] else [])"
proof -
  let ?p = "openai_prompt name role"
  have auth: "is_auth_error err"
    using assms(4) by (simp add: is_auth_error_def)
  have r: "generateBioWithRetry P svc name role (Suc m) d tr =
             (Inl (Some err), tr @ [Log Info, OpenAICall ?p, Log Err, Log Err, Log Err])"
    if "openai_create P (length (filter is_OpenAICall tr)) ?p = Inl err" for m d tr
    using that by (intro generateBioWithRetry_auth_first [OF assms(2) _ auth])
  have r0: "generateBioWithRetry P svc name role 3 1000 (tr @ [Log Info]) =
             (Inl (Some err), (tr @ [Log Info]) @ [Log Info, OpenAICall ?p, Log Err, Log Err, Log Err])"
    using r [of "tr @ [Log Info]" 2 1000] assms(3) by (simp add: numeral_3_eq_3)
  have g: "calls (snd (generateBio e P svc name role tr)) =
           calls tr @ [OpenAICall ?p]
             @ (if geminiModel svc \<noteq> None then [GeminiCall (gemini_prompt name role)] else [])"
  proof (cases "geminiModel svc = None")
    case True
    then show ?thesis
      using assms(1,2) by (simp add: generateBio_def r0)
  next
    case False
    let ?t1 = "tr @ [Log Info, Log Info, OpenAICall ?p, Log Err, Log Err, Log Err, Log Warn, Log Info]"
    obtain r2 tr2 where eq: "generateBioWithGemini P svc name role ?t1 = (r2, tr2)"
      by (cases "generateBioWithGemini P svc name role ?t1") blast
    have c2: "calls tr2 = calls ?t1 @ [GeminiCall (gemini_prompt name role)]"
      using calls_generateBioWithGemini [OF False, of P name role ?t1] eq by simp
    show ?thesis
      using assms(1,2) False c2 by (cases r2) (simp_all add: generateBio_def r0 eq)
  qed
  show ?thesis
    using r [OF assms(3), of m d] g by simp
qed

theorem generateBio_auth_error_no_retry_witness:
  "generateBioWithRetry providers_openai_unauthorized (fst (constructor env_both [])) ''Ada'' ''ENGINEER'' 3 1000 [] =
     (Inl (Some err_unauthorized),
      [Log Info, OpenAICall (openai_prompt ''Ada'' ''ENGINEER''), Log Err, Log Err, Log Err])
   \<and> calls (snd (generateBio env_both providers_openai_unauthorized (fst (constructor env_both [])) ''Ada'' ''ENGINEER'' []))
       = [OpenAICall (openai_prompt ''Ada'' ''ENGINEER''), GeminiCall (gemini_prompt ''Ada'' ''ENGINEER'')]
   \<and> calls (snd (generateBio env_openai_only providers_openai_unauthorized (fst (constructor env_openai_only [])) ''Ada'' ''ENGINEER'' []))
       = [OpenAICall (openai_prompt ''Ada'' ''ENGINEER'')]"
proof -
  have a: "truthy (OPENAI_API_KEY env_both)" "truthy (OPENAI_API_KEY env_openai_only)"
    by (simp_all add: env_both_def env_openai_only_def truthy_def)
  have b: "openai (fst (constructor env_both [])) \<noteq> None"
    "openai (fst (constructor env_openai_only [])) \<noteq> None"
    by (simp_all add: constructor_openai env_both_def env_openai_only_def truthy_def)
  have c: "openai_create providers_openai_unauthorized (length (filter is_OpenAICall []))
             (openai_prompt ''Ada'' ''ENGINEER'') = Inl err_unauthorized"
    by (simp add: providers_openai_unauthorized_def)
  have d: "status err_unauthorized = Some 401 \<or> status err_unauthorized = Some 403
             \<or> code err_unauthorized = Some ''invalid_api_key''"
    by (simp add: err_unauthorized_def)
  have g: "geminiModel (fst (constructor env_both [])) \<noteq> None"
    "geminiModel (fst (constructor env_openai_only [])) = None"
    by (simp_all add: constructor_geminiModel env_both_def env_openai_only_def truthy_def)
  show ?thesis
    using generateBio_auth_error_no_retry [OF a(1) b(1) c d, of 2 1000]
      generateBio_auth_error_no_retry [OF a(2) b(2) c d, of 2 1000] g
    by (simp add: numeral_3_eq_3)
qed

subsection \<open>Retry with exponential backoff\<close>

text \<open>
  Claim C2. For every name and role, with OpenAI configured. First part: when the
  first two calls fail with errors that are not authentication errors and the third
  call answers with \<open>text\<close>, \<open>generateBio\<close> (which runs the loop with the default
  \<open>maxRetries = 3\<close> and \<open>baseDelay = 1000\<close>) returns \<open>text\<close> trimmed as
  \<open>content.trim()\<close> does, and its provider
  events are: call, wait 1000, call, wait 2000, call; Gemini is not called. Second
  part, for any number \<open>m\<close> of attempts and any base delay \<open>d\<close> whose delays stay
  below \<open>2 ^ 53\<close> (where the numbers of JavaScript are exact): when every attempt
  \<open>k = 1..m\<close> fails with an error \<open>err k\<close> that is not an authentication error, the loop
  throws the last error \<open>err m\<close>; it has waited \<open>d * 2 ^ (k - 1)\<close> after each attempt
  \<open>k < m\<close> and not after attempt \<open>m\<close>.
\<close>

theorem generateBio_retry_backoff:
  fixes name role :: string and tr :: "event list"
  assumes "truthy (OPENAI_API_KEY e)" and "openai svc \<noteq> None"
  defines "p \<equiv> openai_prompt name role"
  defines "n0 \<equiv> length (filter is_OpenAICall tr)"
  shows "(openai_create P n0 p = Inl e1 \<and> \<not> is_auth_error e1
          \<and> openai_create P (n0 + 1) p = Inl e2 \<and> \<not> is_auth_error e2
          \<and> openai_create P (n0 + 2) p = Inr (Some content # cs)
          \<longrightarrow> fst (generateBio e P svc name role tr) = Inr (trim content)
            \<and> calls (snd (generateBio e P svc name role tr)) =
                calls tr @ [OpenAICall p, Sleep 1000, OpenAICall p, Sleep 2000, OpenAICall p])
       \<and> (1 \<le> m \<and> d * 2 ^ (m - 1) < 2 ^ 53
          \<and> (\<forall>k. 1 \<le> k \<and> k \<le> m \<longrightarrow>
                 openai_create P (n0 + (k - 1)) p = Inl (err k) \<and> \<not> is_auth_error (err k))
          \<longrightarrow> fst (generateBioWithRetry P svc name role m d tr) = Inl (Some (err m))
            \<and> calls (snd (generateBioWithRetry P svc name role m d tr)) =
                calls tr @ concat (map (\<lambda>k. [OpenAICall p, Sleep (d * 2 ^ (k - 1))]) [1..<m])
                  @ [OpenAICall p])"
proof (intro conjI impI)
  assume h: "openai_create P n0 p = Inl e1 \<and> \<not> is_auth_error e1
          \<and> openai_create P (n0 + 1) p = Inl e2 \<and> \<not> is_auth_error e2
          \<and> openai_create P (n0 + 2) p = Inr (Some content # cs)"
  let ?t0 = "tr @ [Log Info]"
  let ?t2 = "?t0 @ [Log Info, OpenAICall p, Log Err, Log Err, Log Info, Sleep 1000,
                    Log Info, OpenAICall p, Log Err, Log Err, Log Info, Sleep 2000]"
  have n: "length (filter is_OpenAICall ?t0) = n0"
    by (simp add: n0_def)
  have f1: "openai_create P (length (filter is_OpenAICall ?t0)) (openai_prompt name role) = Inl e1"
    and f2: "openai_create P (length (filter is_OpenAICall ?t0) + 1) (openai_prompt name role) = Inl e2"
    and na: "\<not> is_auth_error e1" "\<not> is_auth_error e2"
    using h by (simp_all add: n0_def p_def)
  have two: "generateBioWithRetry P svc name role 3 1000 ?t0 =
               retry_loop P svc name role 3 1000 3 (Some e2) ?t2"
    unfolding p_def
    by (rule generateBioWithRetry_two_failures [OF assms(2) f1 na(1) f2 na(2)])
  have "openai_create P (length (filter is_OpenAICall (?t2 @ [Log Info]))) (openai_prompt name role)
          = Inr (Some content # cs)"
    using h by (simp add: n0_def p_def)
  then have g3: "generateBioWithOpenAI P svc name role (?t2 @ [Log Info]) =
          (Inr (trim content), (?t2 @ [Log Info]) @ [OpenAICall p, Log Info])"
    unfolding p_def by (rule generateBioWithOpenAI_ok [OF assms(2)])
  have "retry_loop P svc name role 3 1000 3 (Some e2) ?t2 =
          (Inr (trim content), (?t2 @ [Log Info]) @ [OpenAICall p, Log Info])"
    by (rule retry_loop_success [OF _ g3]) simp
  with two have r: "generateBioWithRetry P svc name role 3 1000 ?t0 =
          (Inr (trim content), (?t2 @ [Log Info]) @ [OpenAICall p, Log Info])"
    by simp
  show "fst (generateBio e P svc name role tr) = Inr (trim content)"
    using assms(1,2) by (simp add: generateBio_def r)
  show "calls (snd (generateBio e P svc name role tr)) =
          calls tr @ [OpenAICall p, Sleep 1000, OpenAICall p, Sleep 2000, OpenAICall p]"
    using assms(1,2) by (simp add: generateBio_def r)
next
  assume h: "1 \<le> m \<and> d * 2 ^ (m - 1) < 2 ^ 53
          \<and> (\<forall>k. 1 \<le> k \<and> k \<le> m \<longrightarrow>
                 openai_create P (n0 + (k - 1)) p = Inl (err k) \<and> \<not> is_auth_error (err k))"
  then have m: "1 \<le> m"
    and all: "\<forall>k. 1 \<le> k \<and> k \<le> m \<longrightarrow>
           openai_create P (length (filter is_OpenAICall tr) + (k - 1)) (openai_prompt name role) = Inl (err k)
           \<and> \<not> is_auth_error (err k)"
    unfolding n0_def p_def by blast+
  from all have before: "\<forall>k. 1 \<le> k \<and> k < m \<longrightarrow>
           openai_create P (length (filter is_OpenAICall tr) + (k - 1)) (openai_prompt name role) = Inl (err k)
           \<and> \<not> is_auth_error (err k)"
    by simp
  from all m have at: "openai_create P (length (filter is_OpenAICall tr) + (m - 1)) (openai_prompt name role)
           = Inl (err m)"
    by blast
  have stop: "is_auth_error (err m) \<or> m = m"
    by simp
  note loop = retry_loop_fails_at [OF assms(2) order_refl m order_refl before at stop, of d None]
  show "fst (generateBioWithRetry P svc name role m d tr) = Inl (Some (err m))"
    using loop by (simp add: generateBioWithRetry_def)
  show "calls (snd (generateBioWithRetry P svc name role m d tr)) =
          calls tr @ concat (map (\<lambda>k. [OpenAICall p, Sleep (d * 2 ^ (k - 1))]) [1..<m]) @ [OpenAICall p]"
    using loop by (simp add: generateBioWithRetry_def p_def)
qed

theorem generateBio_retry_backoff_witness:
  "fst (generateBio env_both providers_openai_third (fst (constructor env_both [])) ''Ada'' ''ENGINEER'' [])
     = Inr ''Third time lucky.''
   \<and> calls (snd (generateBio env_both providers_openai_third (fst (constructor env_both [])) ''Ada'' ''ENGINEER'' []))
     = [OpenAICall (openai_prompt ''Ada'' ''ENGINEER''), Sleep 1000,
        OpenAICall (openai_prompt ''Ada'' ''ENGINEER''), Sleep 2000,
        OpenAICall (openai_prompt ''Ada'' ''ENGINEER'')]
   \<and> fst (generateBioWithRetry providers_down (fst (constructor env_both [])) ''Ada'' ''ENGINEER'' 3 1000 [])
     = Inl (Some err_rate_limit)
   \<and> calls (snd (generateBioWithRetry providers_down (fst (constructor env_both [])) ''Ada'' ''ENGINEER'' 3 1000 []))
     = [OpenAICall (openai_prompt ''Ada'' ''ENGINEER''), Sleep 1000,
        OpenAICall (openai_prompt ''Ada'' ''ENGINEER''), Sleep 2000,
        OpenAICall (openai_prompt ''Ada'' ''ENGINEER'')]"
proof -
  let ?svc = "fst (constructor env_both [])"
  let ?p = "openai_prompt ''Ada'' ''ENGINEER''"
  have a: "truthy (OPENAI_API_KEY env_both)"
    by (simp add: env_both_def truthy_def)
  have b: "openai ?svc \<noteq> None"
    by (simp add: constructor_openai env_both_def truthy_def)
  have na: "\<not> is_auth_error err_rate_limit"
    by (simp add: is_auth_error_def err_rate_limit_def)
  have h1: "openai_create providers_openai_third (length (filter is_OpenAICall [])) ?p = Inl err_rate_limit
      \<and> \<not> is_auth_error err_rate_limit
      \<and> openai_create providers_openai_third (length (filter is_OpenAICall []) + 1) ?p = Inl err_rate_limit
      \<and> \<not> is_auth_error err_rate_limit
      \<and> openai_create providers_openai_third (length (filter is_OpenAICall []) + 2) ?p
          = Inr (Some third_bio_padded # [])"
    using na by (simp add: providers_openai_third_def)
  have h2: "1 \<le> (3::nat) \<and> (1000::nat) * 2 ^ (3 - 1) < 2 ^ 53 \<and> (\<forall>k. 1 \<le> k \<and> k \<le> 3 \<longrightarrow>
      openai_create providers_down (length (filter is_OpenAICall []) + (k - 1)) ?p = Inl ((\<lambda>k. err_rate_limit) k)
      \<and> \<not> is_auth_error ((\<lambda>k. err_rate_limit) k))"
    using na by (simp add: providers_down_def)
  have t: "trim third_bio_padded = ''Third time lucky.''"
    by (simp add: third_bio_padded_def trim_def first_sequence_def sequence_length_def continuation_def byte_def js_whitespace_def Let_def)
  have u: "[Suc 0..<3] = [Suc 0, Suc (Suc 0)]"
    by (simp add: upt_rec)
  note first_part = generateBio_retry_backoff [OF a b, where P = providers_openai_third and tr = "[]"
      and name = "''Ada''" and role = "''ENGINEER''" and ?e1.0 = err_rate_limit and ?e2.0 = err_rate_limit
      and content = third_bio_padded and cs = "[]", THEN conjunct1, rule_format, OF h1]
  note second_part = generateBio_retry_backoff [OF a b, where P = providers_down and tr = "[]"
      and name = "''Ada''" and role = "''ENGINEER''" and m = 3 and d = 1000 and err = "\<lambda>k. err_rate_limit",
      THEN conjunct2, rule_format, OF h2]
  show ?thesis
    using first_part second_part by (simp add: t u)
qed

subsection \<open>Both providers fail\<close>

text \<open>
  Claim C3. For every name and role: when OpenAI is configured and its three attempts
  fail with retryable errors \<open>e1\<close>, \<open>e2\<close>, \<open>e3\<close>, and the Gemini model exists and its
  one call fails with \<open>ge\<close>, \<open>generateBio\<close> fails with a new error whose message is
  "Bio generation failed: OpenAI (\<open>message e3\<close>) and Gemini (\<open>message ge\<close>) both
  failed": it contains the message of OpenAI's last error and the message of Gemini's
  error.
\<close>

theorem generateBio_both_fail:
  assumes "truthy (OPENAI_API_KEY e)" and "openai svc \<noteq> None" and "geminiModel svc \<noteq> None"
    and "openai_create P (length (filter is_OpenAICall tr)) (openai_prompt name role) = Inl e1"
    and "\<not> is_auth_error e1"
    and "openai_create P (length (filter is_OpenAICall tr) + 1) (openai_prompt name role) = Inl e2"
    and "\<not> is_auth_error e2"
    and "openai_create P (length (filter is_OpenAICall tr) + 2) (openai_prompt name role) = Inl e3"
    and "\<not> is_auth_error e3"
    and "gemini_generateContent P (length (filter is_GeminiCall tr)) (gemini_prompt name role) = Inl ge"
  shows "fst (generateBio e P svc name role tr) =
           Inl (new_Error (''Bio generation failed: OpenAI ('' @ message e3 @ '') and Gemini (''
                            @ message ge @ '') both failed''))
       \<and> calls (snd (generateBio e P svc name role tr)) =
           calls tr @ [OpenAICall (openai_prompt name role), Sleep 1000,
                       OpenAICall (openai_prompt name role), Sleep 2000,
                       OpenAICall (openai_prompt name role), GeminiCall (gemini_prompt name role)]"
proof -
  let ?p = "openai_prompt name role"
  let ?t3 = "(tr @ [Log Info]) @ [Log Info, OpenAICall ?p, Log Err, Log Err, Log Info, Sleep 1000,
                  Log Info, OpenAICall ?p, Log Err, Log Err, Log Info, Sleep 2000,
                  Log Info, OpenAICall ?p, Log Err, Log Err, Log Err]"
  have r: "generateBioWithRetry P svc name role 3 1000 (tr @ [Log Info]) = (Inl (Some e3), ?t3)"
    by (rule generateBioWithRetry_three_failures [OF assms(2) _ assms(5) _ assms(7) _ assms(9)])
       (use assms(4,6,8) in simp_all)
  have "gemini_generateContent P (length (filter is_GeminiCall (?t3 @ [Log Warn, Log Info])))
          (gemini_prompt name role) = Inl ge"
    using assms(10) by simp
  then have g: "generateBioWithGemini P svc name role (?t3 @ [Log Warn, Log Info]) =
          (Inl ge, (?t3 @ [Log Warn, Log Info]) @ [GeminiCall (gemini_prompt name role), Log Err])"
    by (rule generateBioWithGemini_fails [OF assms(3)])
  show ?thesis
    using assms(1-3) g by (simp add: generateBio_def r)
qed

theorem generateBio_both_fail_witness:
  "fst (generateBio env_both providers_down (fst (constructor env_both [])) ''Ada'' ''ENGINEER'' []) =
     Inl \<lparr> message = ''Bio generation failed: OpenAI (Rate limit reached) and Gemini (The model is overloaded) both failed'',
           status = None, code = None \<rparr>
   \<and> calls (snd (generateBio env_both providers_down (fst (constructor env_both [])) ''Ada'' ''ENGINEER'' [])) =
       [OpenAICall (openai_prompt ''Ada'' ''ENGINEER''), Sleep 1000,
        OpenAICall (openai_prompt ''Ada'' ''ENGINEER''), Sleep 2000,
        OpenAICall (openai_prompt ''Ada'' ''ENGINEER''), GeminiCall (gemini_prompt ''Ada'' ''ENGINEER'')]"
proof -
  let ?svc = "fst (constructor env_both [])"
  have a: "truthy (OPENAI_API_KEY env_both)"
    by (simp add: env_both_def truthy_def)
  have b: "openai ?svc \<noteq> None"
    by (simp add: constructor_openai env_both_def truthy_def)
  have c: "geminiModel ?svc \<noteq> None"
    by (simp add: constructor_geminiModel env_both_def truthy_def)
  have na: "\<not> is_auth_error err_rate_limit"
    by (simp add: is_auth_error_def err_rate_limit_def)
  have f: "openai_create providers_down n (openai_prompt ''Ada'' ''ENGINEER'') = Inl err_rate_limit" for n
    by (simp add: providers_down_def)
  have g: "gemini_generateContent providers_down (length (filter is_GeminiCall []))
             (gemini_prompt ''Ada'' ''ENGINEER'') = Inl err_overloaded"
    by (simp add: providers_down_def)
  show ?thesis
    using generateBio_both_fail [OF a b c f na f na f na g]
    by (simp add: new_Error_def err_rate_limit_def err_overloaded_def)
qed

subsection \<open>OpenAI fails and there is no fallback\<close>

lemma generateBio_no_fallback:
  assumes "truthy (OPENAI_API_KEY e)" and "openai svc \<noteq> None" and "geminiModel svc = None"
    and "fst (generateBioWithRetry P svc name role 3 1000 (tr @ [Log Info])) = Inl (Some err)"
  shows "fst (generateBio e P svc name role tr) = Inl err
       \<and> calls (snd (generateBio e P svc name role tr)) =
           calls (snd (generateBioWithRetry P svc name role 3 1000 (tr @ [Log Info])))"
proof -
  obtain r t1 where g: "generateBioWithRetry P svc name role 3 1000 (tr @ [Log Info]) = (r, t1)"
    by (cases "generateBioWithRetry P svc name role 3 1000 (tr @ [Log Info])") blast
  with assms(4) have r: "r = Inl (Some err)" by simp
  show ?thesis
    using assms(1-3) by (simp add: generateBio_def g r)
qed

text \<open>
  Claim C4. For every name and role, with OpenAI configured and no Gemini model.
  \<open>generateBioWithOpenAI\<close> throws the error the client raised. And whichever attempt
  \<open>j\<close> of the three ends the retry loop (the attempts before it failed with retryable
  errors, and attempt \<open>j\<close> fails with an authentication error or is the third),
  \<open>generateBio\<close> fails with the error \<open>errs j\<close> that the client raised at that attempt:
  the same value, with its message, status and code. The provider events are the
  OpenAI calls and the waits between them; Gemini is not called.
\<close>

theorem generateBio_propagates_openai_error:
  fixes name role :: string and tr :: "event list"
  assumes "truthy (OPENAI_API_KEY e)" and "openai svc \<noteq> None" and "geminiModel svc = None"
  defines "p \<equiv> openai_prompt name role"
  defines "n0 \<equiv> length (filter is_OpenAICall tr)"
  shows "(openai_create P n0 p = Inl err \<longrightarrow> fst (generateBioWithOpenAI P svc name role tr) = Inl err)
       \<and> (1 \<le> j \<and> j \<le> 3
          \<and> (\<forall>k. 1 \<le> k \<and> k < j \<longrightarrow>
                 openai_create P (n0 + (k - 1)) p = Inl (errs k) \<and> \<not> is_auth_error (errs k))
          \<and> openai_create P (n0 + (j - 1)) p = Inl (errs j)
          \<and> (is_auth_error (errs j) \<or> j = 3)
          \<longrightarrow> fst (generateBio e P svc name role tr) = Inl (errs j)
            \<and> calls (snd (generateBio e P svc name role tr)) =
                calls tr @ concat (map (\<lambda>k. [OpenAICall p, Sleep (1000 * 2 ^ (k - 1))]) [1..<j])
                  @ [OpenAICall p])"
proof (intro conjI impI)
  assume "openai_create P n0 p = Inl err"
  then show "fst (generateBioWithOpenAI P svc name role tr) = Inl err"
    using assms(2) by (simp add: generateBioWithOpenAI_fails n0_def p_def)
next
  assume h: "1 \<le> j \<and> j \<le> 3
          \<and> (\<forall>k. 1 \<le> k \<and> k < j \<longrightarrow>
                 openai_create P (n0 + (k - 1)) p = Inl (errs k) \<and> \<not> is_auth_error (errs k))
          \<and> openai_create P (n0 + (j - 1)) p = Inl (errs j)
          \<and> (is_auth_error (errs j) \<or> j = 3)"
  let ?t0 = "tr @ [Log Info]"
  have n: "length (filter is_OpenAICall ?t0) = n0"
    by (simp add: n0_def)
  from h have j: "1 \<le> j" "j \<le> 3" and stop: "is_auth_error (errs j) \<or> j = 3"
    by simp_all
  from h have before: "\<forall>k. 1 \<le> k \<and> k < j \<longrightarrow>
      openai_create P (length (filter is_OpenAICall ?t0) + (k - 1)) (openai_prompt name role) = Inl (errs k)
      \<and> \<not> is_auth_error (errs k)"
    unfolding n p_def by simp
  from h have at: "openai_create P (length (filter is_OpenAICall ?t0) + (j - 1)) (openai_prompt name role)
      = Inl (errs j)"
    unfolding n p_def by blast
  note loop = retry_loop_fails_at [OF assms(2) order_refl j before at stop, of 1000 None]
  then have r: "fst (generateBioWithRetry P svc name role 3 1000 ?t0) = Inl (Some (errs j))"
    and c: "calls (snd (generateBioWithRetry P svc name role 3 1000 ?t0)) =
              calls tr @ concat (map (\<lambda>k. [OpenAICall p, Sleep (1000 * 2 ^ (k - 1))]) [1..<j]) @ [OpenAICall p]"
    by (simp_all add: generateBioWithRetry_def p_def)
  note gen = generateBio_no_fallback [OF assms(1-3) r]
  show "fst (generateBio e P svc name role tr) = Inl (errs j)"
    using gen by simp
  show "calls (snd (generateBio e P svc name role tr)) =
          calls tr @ concat (map (\<lambda>k. [OpenAICall p, Sleep (1000 * 2 ^ (k - 1))]) [1..<j]) @ [OpenAICall p]"
    using gen c by simp
qed

theorem generateBio_propagates_openai_error_witness:
  "fst (generateBioWithOpenAI providers_openai_unauthorized (fst (constructor env_openai_only [])) ''Ada'' ''ENGINEER'' [])
     = Inl \<lparr> message = ''Incorrect API key provided'', status = Some 401, code = Some ''invalid_api_key'' \<rparr>
   \<and> fst (generateBio env_openai_only providers_openai_unauthorized (fst (constructor env_openai_only [])) ''Ada'' ''ENGINEER'' [])
     = Inl \<lparr> message = ''Incorrect API key provided'', status = Some 401, code = Some ''invalid_api_key'' \<rparr>
   \<and> calls (snd (generateBio env_openai_only providers_openai_unauthorized (fst (constructor env_openai_only [])) ''Ada'' ''ENGINEER'' []))
     = [OpenAICall (openai_prompt ''Ada'' ''ENGINEER'')]
   \<and> fst (generateBio env_openai_only providers_down (fst (constructor env_openai_only [])) ''Ada'' ''ENGINEER'' [])
     = Inl \<lparr> message = ''Rate limit reached'', status = Some 429, code = Some ''rate_limit_exceeded'' \<rparr>
   \<and> calls (snd (generateBio env_openai_only providers_down (fst (constructor env_openai_only [])) ''Ada'' ''ENGINEER'' []))
     = [OpenAICall (openai_prompt ''Ada'' ''ENGINEER''), Sleep 1000,
        OpenAICall (openai_prompt ''Ada'' ''ENGINEER''), Sleep 2000,
        OpenAICall (openai_prompt ''Ada'' ''ENGINEER'')]"
proof -
  let ?svc = "fst (constructor env_openai_only [])"
  let ?p = "openai_prompt ''Ada'' ''ENGINEER''"
  have a: "truthy (OPENAI_API_KEY env_openai_only)"
    by (simp add: env_openai_only_def truthy_def)
  have b: "openai ?svc \<noteq> None"
    by (simp add: constructor_openai env_openai_only_def truthy_def)
  have c: "geminiModel ?svc = None"
    by (simp add: constructor_geminiModel env_openai_only_def truthy_def)
  have h1: "openai_create providers_openai_unauthorized (length (filter is_OpenAICall [])) ?p = Inl err_unauthorized"
    by (simp add: providers_openai_unauthorized_def)
  have h2: "1 \<le> (1::nat) \<and> (1::nat) \<le> 3
      \<and> (\<forall>k. 1 \<le> k \<and> k < 1 \<longrightarrow>
             openai_create providers_openai_unauthorized (length (filter is_OpenAICall []) + (k - 1)) ?p
               = Inl ((\<lambda>k. err_unauthorized) k)
             \<and> \<not> is_auth_error ((\<lambda>k. err_unauthorized) k))
      \<and> openai_create providers_openai_unauthorized (length (filter is_OpenAICall []) + (1 - 1)) ?p
           = Inl ((\<lambda>k. err_unauthorized) 1)
      \<and> (is_auth_error ((\<lambda>k. err_unauthorized) 1) \<or> (1::nat) = 3)"
    by (simp add: providers_openai_unauthorized_def is_auth_error_def err_unauthorized_def)
  have h3: "1 \<le> (3::nat) \<and> (3::nat) \<le> 3
      \<and> (\<forall>k. 1 \<le> k \<and> k < 3 \<longrightarrow>
             openai_create providers_down (length (filter is_OpenAICall []) + (k - 1)) ?p
               = Inl ((\<lambda>k. err_rate_limit) k)
             \<and> \<not> is_auth_error ((\<lambda>k. err_rate_limit) k))
      \<and> openai_create providers_down (length (filter is_OpenAICall []) + (3 - 1)) ?p
           = Inl ((\<lambda>k. err_rate_limit) 3)
      \<and> (is_auth_error ((\<lambda>k. err_rate_limit) 3) \<or> (3::nat) = 3)"
    by (simp add: providers_down_def is_auth_error_def err_rate_limit_def)
  have u: "[Suc 0..<3] = [Suc 0, Suc (Suc 0)]"
    by (simp add: upt_rec)
  note main = generateBio_propagates_openai_error [OF a b c]
  note t1 = main [where P = providers_openai_unauthorized and tr = "[]" and name = "''Ada''"
      and role = "''ENGINEER''" and err = err_unauthorized, THEN conjunct1, rule_format, OF h1]
  note t2 = main [where P = providers_openai_unauthorized and tr = "[]" and name = "''Ada''"
      and role = "''ENGINEER''" and j = 1 and errs = "\<lambda>k. err_unauthorized",
      THEN conjunct2, rule_format, OF h2]
  note t3 = main [where P = providers_down and tr = "[]" and name = "''Ada''"
      and role = "''ENGINEER''" and j = 3 and errs = "\<lambda>k. err_rate_limit",
      THEN conjunct2, rule_format, OF h3]
  show ?thesis
    using t1 t2 t3 by (simp add: err_unauthorized_def err_rate_limit_def u)
qed

subsection \<open>Bio generation does not touch the database\<close>

lemma db_events_append [simp]: "db_events (xs @ ys) = db_events xs @ db_events ys"
  by (simp add: db_events_def)

lemma db_events_Nil [simp]: "db_events [] = []"
  by (simp add: db_events_def)

lemma db_events_Cons [simp]:
  "db_events (ev # tr) =
     (if is_Log ev \<or> is_OpenAICall ev \<or> is_GeminiCall ev \<or> is_Sleep ev then db_events tr
      else ev # db_events tr)"
  by (simp add: db_events_def)

lemma db_events_generateBioWithOpenAI [simp]:
  "db_events (snd (generateBioWithOpenAI P svc name role tr)) = db_events tr"
  by (simp add: generateBioWithOpenAI_def Let_def split: sum.splits list.splits option.splits)

lemma db_events_generateBioWithGemini [simp]:
  "db_events (snd (generateBioWithGemini P svc name role tr)) = db_events tr"
  by (simp add: generateBioWithGemini_def Let_def split: sum.splits)

lemma db_events_retry_loop [simp]:
  "db_events (snd (retry_loop P svc name role maxRetries baseDelay attempt lastError tr)) = db_events tr"
proof (induction P svc name role maxRetries baseDelay attempt lastError tr rule: retry_loop.induct)
  case (1 P svc name role maxRetries baseDelay attempt lastError tr)
  obtain r tr1 where g: "generateBioWithOpenAI P svc name role (tr @ [Log Info]) = (r, tr1)"
    by (cases "generateBioWithOpenAI P svc name role (tr @ [Log Info])") blast
  have "tr1 = snd (generateBioWithOpenAI P svc name role (tr @ [Log Info]))"
    by (simp add: g)
  then have d: "db_events tr1 = db_events tr"
    by simp
  show ?case
  proof (cases r)
    case (Inl error)
    then show ?thesis
      using "1.IH" [OF _ g [symmetric] Inl] d g
      by (subst retry_loop.simps) (auto simp add: g)
  next
    case (Inr bio)
    then show ?thesis
      using d g by (subst retry_loop.simps) simp
  qed
qed

lemma db_events_generateBio [simp]:
  "db_events (snd (generateBio e P svc name role tr)) = db_events tr"
proof -
  obtain r tr1 where g: "generateBioWithRetry P svc name role 3 1000 (tr @ [Log Info]) = (r, tr1)"
    by (cases "generateBioWithRetry P svc name role 3 1000 (tr @ [Log Info])") blast
  have "tr1 = snd (generateBioWithRetry P svc name role 3 1000 (tr @ [Log Info]))"
    by (simp add: g)
  then have d: "db_events tr1 = db_events tr"
    by (simp add: generateBioWithRetry_def)
  obtain r2 tr2 where g2: "generateBioWithGemini P svc name role (tr1 @ [Log Warn, Log Info]) = (r2, tr2)"
    by (cases "generateBioWithGemini P svc name role (tr1 @ [Log Warn, Log Info])") blast
  have "tr2 = snd (generateBioWithGemini P svc name role (tr1 @ [Log Warn, Log Info]))"
    by (simp add: g2)
  then have d2: "db_events tr2 = db_events tr"
    using d by simp
  show ?thesis
    using d d2 by (simp add: generateBio_def g g2 split: sum.splits option.splits)
qed

section \<open>Properties of the controller\<close>

lemma generateBio_unauthorized_no_fallback:
  assumes "truthy (OPENAI_API_KEY e)" and "openai svc \<noteq> None" and "geminiModel svc = None"
    and "openai_create P (length (filter is_OpenAICall tr)) (openai_prompt name role) = Inl err"
    and "is_auth_error err"
  shows "generateBio e P svc name role tr =
           (Inl err, tr @ [Log Info, Log Info, OpenAICall (openai_prompt name role),
                           Log Err, Log Err, Log Err, Log Warn, Log Err])"
proof -
  have "openai_create P (length (filter is_OpenAICall (tr @ [Log Info]))) (openai_prompt name role) = Inl err"
    using assms(4) by simp
  then have "generateBioWithRetry P svc name role 3 1000 (tr @ [Log Info]) =
          (Inl (Some err), (tr @ [Log Info]) @ [Log Info, OpenAICall (openai_prompt name role), Log Err, Log Err, Log Err])"
    using generateBioWithRetry_auth_first [OF assms(2) _ assms(5), of P "tr @ [Log Info]" name role 2 1000]
    by (simp add: numeral_3_eq_3)
  then show ?thesis
    using assms(1-3) by (simp add: generateBio_def)
qed

text \<open>
  Claim C9. Creation: for a request that passes the checks of \<open>createUser\<close> (email
  present, well formed and short enough, no user with that email, role found), when
  \<open>generateBio\<close> fails with \<open>err\<close> the handler passes \<open>err\<close> to \<open>next\<close> and sends no
  response; the only calls of the database layer are the two look-ups, so
  \<open>User.create\<close> is not called. Update: for a request with a role that is found and a
  user that is found and updated, when \<open>generateBio\<close> fails the handler logs one
  warning and then answers 200 with the profile of the updated user, whose bio is the
  one the update returned; the database layer is called for the role look-up and the
  update only, so nothing is saved.
\<close>

theorem bio_failure_createUser_fails_updateUser_continues:
  fixes tr :: "event list" and email :: string and body :: create_body
    and ubody :: "(string \<times> jsval) list" and now :: int
  defines "normalizedEmail \<equiv> toLowerCase (trim email)"
  defines "reached \<equiv> tr @ [Log Info, Log Info, Log Info, Log Info, Log Info, Log Info,
                            UserFindOne normalizedEmail, Log Info, Log Info,
                            RoleFindById (js_value (body_role body)), Log Info, Log Info]"
  defines "updates \<equiv> js_delete (js_delete (js_delete ubody ''_id'') ''__v'') ''createdAt''"
  defines "update \<equiv> js_set updates ''updatedAt'' (JNum now)"
  shows "(body_email body = Some email \<and> email \<noteq> [] \<and> trim email \<noteq> []
          \<and> emailRegex_test normalizedEmail \<and> length normalizedEmail \<le> 254
          \<and> User_findOne D normalizedEmail = Inr None
          \<and> Role_findById D (js_value (body_role body)) = Inr (Some roleInfo)
          \<and> generateBio e P svc (js_string (body_name body)) (role_name roleInfo) reached = (Inl err, tr1)
          \<longrightarrow> createUser e P svc D body tr = (Next err, tr1 @ [Log Err, Log Err])
            \<and> db_events (snd (createUser e P svc D body tr)) =
                db_events tr @ [UserFindOne normalizedEmail, RoleFindById (js_value (body_role body))])
       \<and> (js_truthy (js_get updates ''role'')
          \<and> Role_findById D (js_get updates ''role'') = Inr (Some roleInfo)
          \<and> User_findByIdAndUpdate D uid update = Inr (Some user)
          \<and> generateBio e P svc (user_name user) (role_name roleInfo)
               (tr @ [RoleFindById (js_get updates ''role''), UserFindByIdAndUpdate uid update, Log Info])
               = (Inl err, tr1)
          \<longrightarrow> updateUser e P svc D now uid ubody tr =
               (Respond 200 (JObj [(''success'', JBool True),
                                   (''message'', JStr ''User updated successfully''),
                                   (''data'', getPublicProfile user)]),
                tr1 @ [Log Warn, Log Info])
            \<and> db_events (snd (updateUser e P svc D now uid ubody tr)) =
                db_events tr @ [RoleFindById (js_get updates ''role''), UserFindByIdAndUpdate uid update])"
proof (intro conjI impI)
  assume h: "body_email body = Some email \<and> email \<noteq> [] \<and> trim email \<noteq> []
          \<and> emailRegex_test normalizedEmail \<and> length normalizedEmail \<le> 254
          \<and> User_findOne D normalizedEmail = Inr None
          \<and> Role_findById D (js_value (body_role body)) = Inr (Some roleInfo)
          \<and> generateBio e P svc (js_string (body_name body)) (role_name roleInfo) reached = (Inl err, tr1)"
  then have g: "generateBio e P svc (js_string (body_name body)) (role_name roleInfo) reached = (Inl err, tr1)"
    by simp
  have t: "createUser_try e P svc D body normalizedEmail roleInfo reached = (Inl err, tr1 @ [Log Err])"
    by (simp add: createUser_try_def g)
  have t': "createUser_try e P svc D body (toLowerCase (trim email)) roleInfo
              (tr @ [Log Info, Log Info, Log Info, Log Info, Log Info, Log Info,
                     UserFindOne (toLowerCase (trim email)), Log Info, Log Info,
                     RoleFindById (js_value (body_role body)), Log Info, Log Info])
            = (Inl err, tr1 @ [Log Err])"
    using t by (simp add: reached_def normalizedEmail_def)
  show c: "createUser e P svc D body tr = (Next err, tr1 @ [Log Err, Log Err])"
    using h t' by (simp add: createUser_def Let_def normalizedEmail_def)
  have "tr1 = snd (generateBio e P svc (js_string (body_name body)) (role_name roleInfo) reached)"
    by (simp add: g)
  then have "db_events tr1 = db_events reached"
    by simp
  then show "db_events (snd (createUser e P svc D body tr)) =
          db_events tr @ [UserFindOne normalizedEmail, RoleFindById (js_value (body_role body))]"
    by (simp add: c reached_def)
next
  assume h: "js_truthy (js_get updates ''role'')
          \<and> Role_findById D (js_get updates ''role'') = Inr (Some roleInfo)
          \<and> User_findByIdAndUpdate D uid update = Inr (Some user)
          \<and> generateBio e P svc (user_name user) (role_name roleInfo)
               (tr @ [RoleFindById (js_get updates ''role''), UserFindByIdAndUpdate uid update, Log Info])
               = (Inl err, tr1)"
  let ?reached = "tr @ [RoleFindById (js_get updates ''role''), UserFindByIdAndUpdate uid update, Log Info]"
  from h have g: "generateBio e P svc (user_name user) (role_name roleInfo) ?reached = (Inl err, tr1)"
    by simp
  show c: "updateUser e P svc D now uid ubody tr =
               (Respond 200 (JObj [(''success'', JBool True),
                                   (''message'', JStr ''User updated successfully''),
                                   (''data'', getPublicProfile user)]),
                tr1 @ [Log Warn, Log Info])"
    using h by (simp add: updateUser_def Let_def updates_def [symmetric] update_def [symmetric])
  have "tr1 = snd (generateBio e P svc (user_name user) (role_name roleInfo) ?reached)"
    by (simp add: g)
  then have "db_events tr1 = db_events ?reached"
    by simp
  then show "db_events (snd (updateUser e P svc D now uid ubody tr)) =
          db_events tr @ [RoleFindById (js_get updates ''role''), UserFindByIdAndUpdate uid update]"
    by (simp add: c)
qed

theorem bio_failure_createUser_fails_updateUser_continues_witness:
  "fst (createUser env_openai_only providers_openai_unauthorized (fst (constructor env_openai_only []))
          db_small body_ada []) = Next err_unauthorized
   \<and> db_events (snd (createUser env_openai_only providers_openai_unauthorized
          (fst (constructor env_openai_only [])) db_small body_ada []))
       = [UserFindOne ''ada@example.com'', RoleFindById (JStr ''r1'')]
   \<and> fst (updateUser env_openai_only providers_openai_unauthorized (fst (constructor env_openai_only []))
          db_small 1700000900000 ''u1'' [(''_id'', JStr ''u2''), (''role'', JStr ''r1'')] [])
       = Respond 200 (JObj [(''success'', JBool True),
                            (''message'', JStr ''User updated successfully''),
                            (''data'', getPublicProfile user_ada)])
   \<and> db_events (snd (updateUser env_openai_only providers_openai_unauthorized
          (fst (constructor env_openai_only [])) db_small 1700000900000 ''u1''
          [(''_id'', JStr ''u2''), (''role'', JStr ''r1'')] []))
       = [RoleFindById (JStr ''r1''),
          UserFindByIdAndUpdate ''u1'' [(''role'', JStr ''r1''), (''updatedAt'', JNum 1700000900000)]]"
proof -
  let ?e = env_openai_only and ?P = providers_openai_unauthorized
  let ?svc = "fst (constructor env_openai_only [])"
  let ?ubody = "[(''_id'', JStr ''u2''), (''role'', JStr ''r1'')]"
  have a: "truthy (OPENAI_API_KEY ?e)"
    by (simp add: env_openai_only_def truthy_def)
  have b: "openai ?svc \<noteq> None"
    by (simp add: constructor_openai env_openai_only_def truthy_def)
  have c: "geminiModel ?svc = None"
    by (simp add: constructor_geminiModel env_openai_only_def truthy_def)
  have f: "openai_create ?P n p = Inl err_unauthorized" for n p
    by (simp add: providers_openai_unauthorized_def)
  have au: "is_auth_error err_unauthorized"
    by (simp add: is_auth_error_def err_unauthorized_def)
  note gen = generateBio_unauthorized_no_fallback [OF a b c f au]
  have t0: "trim '' Ada@Example.com '' = ''Ada@Example.com''"
    by (simp add: trim_def first_sequence_def sequence_length_def continuation_def byte_def js_whitespace_def Let_def)
  have "toLowerCase ''Ada@Example.com'' = ''ada@example.com''"
    by code_simp
  with t0 have n: "toLowerCase (trim '' Ada@Example.com '') = ''ada@example.com''"
    by simp
  have t: "trim '' Ada@Example.com '' \<noteq> []"
    by (simp add: t0)
  have r: "emailRegex_test ''ada@example.com''"
    by code_simp
  have h1: "body_email body_ada = Some '' Ada@Example.com '' \<and> '' Ada@Example.com '' \<noteq> []
      \<and> trim '' Ada@Example.com '' \<noteq> []
      \<and> emailRegex_test (toLowerCase (trim '' Ada@Example.com ''))
      \<and> length (toLowerCase (trim '' Ada@Example.com '')) \<le> 254
      \<and> User_findOne db_small (toLowerCase (trim '' Ada@Example.com '')) = Inr None
      \<and> Role_findById db_small (js_value (body_role body_ada)) = Inr (Some role_engineer)
      \<and> generateBio ?e ?P ?svc (js_string (body_name body_ada)) (role_name role_engineer)
           ([] @ [Log Info, Log Info, Log Info, Log Info, Log Info, Log Info,
                  UserFindOne (toLowerCase (trim '' Ada@Example.com '')), Log Info, Log Info,
                  RoleFindById (js_value (body_role body_ada)), Log Info, Log Info])
         = (Inl err_unauthorized,
            ([] @ [Log Info, Log Info, Log Info, Log Info, Log Info, Log Info,
                   UserFindOne (toLowerCase (trim '' Ada@Example.com '')), Log Info, Log Info,
                   RoleFindById (js_value (body_role body_ada)), Log Info, Log Info])
            @ [Log Info, Log Info,
               OpenAICall (openai_prompt (js_string (body_name body_ada)) (role_name role_engineer)),
               Log Err, Log Err, Log Err, Log Warn, Log Err])"
    unfolding gen n using t r by (simp add: body_ada_def db_small_def js_value_def)
  have u: "js_delete (js_delete (js_delete ?ubody ''_id'') ''__v'') ''createdAt'' = [(''role'', JStr ''r1'')]"
    by (simp add: js_delete_def)
  have v: "js_set [(''role'', JStr ''r1'')] ''updatedAt'' (JNum 1700000900000)
             = [(''role'', JStr ''r1''), (''updatedAt'', JNum 1700000900000)]"
    by (simp add: js_set_def)
  have h2: "js_truthy (js_get (js_delete (js_delete (js_delete ?ubody ''_id'') ''__v'') ''createdAt'') ''role'')
      \<and> Role_findById db_small (js_get (js_delete (js_delete (js_delete ?ubody ''_id'') ''__v'') ''createdAt'') ''role'')
          = Inr (Some role_engineer)
      \<and> User_findByIdAndUpdate db_small ''u1''
            (js_set (js_delete (js_delete (js_delete ?ubody ''_id'') ''__v'') ''createdAt'') ''updatedAt''
               (JNum 1700000900000))
          = Inr (Some user_ada)
      \<and> generateBio ?e ?P ?svc (user_name user_ada) (role_name role_engineer)
           ([] @ [RoleFindById (js_get (js_delete (js_delete (js_delete ?ubody ''_id'') ''__v'') ''createdAt'') ''role''),
                  UserFindByIdAndUpdate ''u1''
                    (js_set (js_delete (js_delete (js_delete ?ubody ''_id'') ''__v'') ''createdAt'') ''updatedAt''
                       (JNum 1700000900000)),
                  Log Info])
         = (Inl err_unauthorized,
            ([] @ [RoleFindById (js_get (js_delete (js_delete (js_delete ?ubody ''_id'') ''__v'') ''createdAt'') ''role''),
                   UserFindByIdAndUpdate ''u1''
                     (js_set (js_delete (js_delete (js_delete ?ubody ''_id'') ''__v'') ''createdAt'') ''updatedAt''
                        (JNum 1700000900000)),
                   Log Info])
            @ [Log Info, Log Info,
               OpenAICall (openai_prompt (user_name user_ada) (role_name role_engineer)),
               Log Err, Log Err, Log Err, Log Warn, Log Err])"
    unfolding gen u v by (simp add: js_get_def db_small_def)
  note c1 = bio_failure_createUser_fails_updateUser_continues [THEN conjunct1, rule_format, OF h1]
  note c2 = bio_failure_createUser_fails_updateUser_continues [THEN conjunct2, rule_format, OF h2]
  show ?thesis
    using c1 c2 by (simp add: n u v js_get_def js_value_def body_ada_def)
qed

text \<open>
  Claim C10. The status handler answers 200 with \<open>data.services\<close> the status object
  and \<open>data.configured\<close> the value of \<open>status.openai || status.huggingface\<close>. The
  status object has no property \<open>huggingface\<close>, so \<open>configured\<close> is \<open>true\<close> when the
  \<open>openai\<close> field is true and \<open>undefined\<close> otherwise: it is \<open>true\<close> exactly when
  OpenAI is configured, whatever the Gemini configuration.
\<close>

theorem getAIStatus_configured_is_openai:
  "fst (getAIStatus e svc tr) =
     Respond 200
       (JObj [(''success'', JBool True),
              (''message'', JStr ''AI service status retrieved''),
              (''data'', JObj [(''services'', JObj (getServiceStatus e svc)),
                               (''configured'', if openaiConfigured e svc then JBool True else JUndefined)])])
   \<and> js_get (getServiceStatus e svc) ''huggingface'' = JUndefined
   \<and> (js_or (js_get (getServiceStatus e svc) ''openai'') (js_get (getServiceStatus e svc) ''huggingface'')
        = JBool True) = openaiConfigured e svc"
  by (simp add: getAIStatus_def getServiceStatus_def js_get_def js_or_def)

text \<open>With the Gemini key alone, \<open>hasAnyService\<close> is true and \<open>configured\<close> is \<open>undefined\<close>.\<close>

theorem getAIStatus_configured_is_openai_witness:
  "fst (getAIStatus env_gemini_only (fst (constructor env_gemini_only [])) []) =
     Respond 200
       (JObj [(''success'', JBool True),
              (''message'', JStr ''AI service status retrieved''),
              (''data'', JObj [(''services'', JObj [(''openai'', JBool False), (''gemini'', JBool True),
                                                    (''hasAnyService'', JBool True), (''fallback'', JBool True)]),
                               (''configured'', JUndefined)])])"
proof -
  have a: "\<not> openaiConfigured env_gemini_only (fst (constructor env_gemini_only []))"
    by (simp add: openaiConfigured_def env_gemini_only_def truthy_def)
  have b: "geminiConfigured env_gemini_only (fst (constructor env_gemini_only []))"
    by (simp add: geminiConfigured_def constructor_geminiModel env_gemini_only_def truthy_def)
  show ?thesis
    using getAIStatus_configured_is_openai [of env_gemini_only "fst (constructor env_gemini_only [])" "[]"] a b
    by (simp add: getServiceStatus_def)
qed

end
